theory Spec2Isabelle
  imports Main "HOL-Library.Word"
begin

section \<open>Ethernet Connection Manager: data model\<close>

text \<open>
  The model follows \<^verbatim>\<open>cy_ecm.c\<close>. The file-scope statics of the C file are the fields of
  the record \<open>ecm_state\<close>. Every function of the C file becomes a function that takes the
  state and returns the result code, the new state and the list of calls it made to its
  collaborators (RTOS, network stack, PHY driver, application callbacks), in program
  order. What a collaborator answers is an input of the model.
\<close>

subsection \<open>Result codes and events\<close>

text \<open>
  \<^verbatim>\<open>cy_rslt_t\<close> is a 32-bit code. The codes used by \<^verbatim>\<open>cy_ecm.c\<close> are macros of
  \<^verbatim>\<open>cy_ecm_error.h\<close>, \<^verbatim>\<open>cy_result.h\<close> and the network core; the code only compares them
  for equality, so they are the constructors of a datatype, and \<open>CY_RSLT_OTHER\<close> stands
  for any further code a collaborator may return.
\<close>

datatype cy_rslt_t =
    CY_RSLT_SUCCESS
  | CY_RSLT_ECM_ERROR
  | CY_RSLT_ECM_INIT_ERROR
  | CY_RSLT_ECM_NW_INIT_ERROR
  | CY_RSLT_ECM_MUTEX_ERROR
  | CY_RSLT_ECM_ERROR_NOMEM
  | CY_RSLT_ECM_INTERFACE_ERROR
  | CY_RSLT_ECM_STATIC_IP_NOT_SUPPORTED
  | CY_RSLT_ECM_DHCP_TIMEOUT
  | CY_RSLT_ECM_IP_ADDR_ERROR
  | CY_RSLT_MODULE_ECM_BADARG
  | CY_RSLT_MODULE_ECM_NOT_INITIALIZED
  | CY_RSLT_MODULE_ECM_ALREADY_CONNECTED
  | CY_RSLT_MODULE_ECM_NOT_CONNECTED
  | CY_RSLT_MODULE_ECM_ERROR_STARTING_DHCP
  | CY_RSLT_NETWORK_ERROR_STARTING_DHCP
  | CY_RSLT_NETWORK_DHCP_WAIT_TIMEOUT
  | CY_RSLT_OTHER nat

datatype cy_ecm_event_t =
    CY_ECM_EVENT_CONNECTED
  | CY_ECM_EVENT_DISCONNECTED
  | CY_ECM_EVENT_IP_CHANGED

text \<open>A callback is a function pointer; only its identity matters. \<open>None\<close> is \<^verbatim>\<open>NULL\<close>.\<close>

type_synonym cy_ecm_event_callback_t = nat

subsection \<open>Constants\<close>

definition DHCP_TIMEOUT_COUNT :: "32 word" where
  "DHCP_TIMEOUT_COUNT = 6000"

definition CY_ECM_ETH_INTERFACE_MAX :: nat where
  "CY_ECM_ETH_INTERFACE_MAX = 2"

definition CY_POLL_ETHERNET_PHY_STATUS_TIME :: nat where
  "CY_POLL_ETHERNET_PHY_STATUS_TIME = 1000"

definition WAIT_CHECK_ETHERNET_PHY_STATUS :: "32 word" where
  "WAIT_CHECK_ETHERNET_PHY_STATUS = 100"

definition RETRY_WAIT_TIME_GET_IP_ADDR :: "32 word" where
  "RETRY_WAIT_TIME_GET_IP_ADDR = 10"

definition MAX_WAIT_ETHERNET_PHY_STATUS :: "32 word" where
  "MAX_WAIT_ETHERNET_PHY_STATUS = 10000"

definition CY_ECM_MAXIMUM_CALLBACKS_COUNT :: nat where
  "CY_ECM_MAXIMUM_CALLBACKS_COUNT = 3"

text \<open>
  The interface enumeration of \<^verbatim>\<open>cy_ecm.h\<close>. The two interfaces index arrays of
  \<open>CY_ECM_ETH_INTERFACE_MAX = 2\<close> elements, and \<^verbatim>\<open>eth_idx >= CY_ECM_INTERFACE_INVALID\<close>
  rejects every other value.
\<close>

definition CY_ECM_INTERFACE_ETH0 :: nat where
  "CY_ECM_INTERFACE_ETH0 = 0"

definition CY_ECM_INTERFACE_ETH1 :: nat where
  "CY_ECM_INTERFACE_ETH1 = 1"

definition CY_ECM_INTERFACE_INVALID :: nat where
  "CY_ECM_INTERFACE_INVALID = 2"

subsection \<open>Calls to collaborators\<close>

datatype call =
    Cy_network_init
  | Cy_network_deinit
  | Cy_rtos_init_mutex2_ecm_mutex
  | Cy_rtos_get_mutex
  | Cy_rtos_set_mutex
  | Malloc_ecm_obj
  | Free_ecm_obj
  | Cy_rtos_init_mutex2_obj_mutex
  | Cy_rtos_deinit_mutex_obj_mutex
  | Cyhal_syspm_lock_deepsleep
  | Cyhal_syspm_unlock_deepsleep
  | Cy_eth_driver_initialization nat
  | Cy_ETHIF_SetPromiscuousMode
  | Cy_ETHIF_SetNoBroadCast
  | Cy_rtos_create_thread
  | Cy_network_add_nw_interface nat
  | Cy_network_register_ip_change_cb
  | Cy_network_ip_up
  | Cy_network_ip_down
  | Cy_network_remove_nw_interface
  | Cy_network_get_ip_address
  | Phy_get_linkstatus nat
  | Phy_get_linkspeed nat
  | Cy_rtos_delay_milliseconds nat
  | App_callback cy_ecm_event_callback_t cy_ecm_event_t

subsection \<open>The static variables\<close>

record ecm_state =
  is_ecm_initialized :: bool
  is_tcp_initialized :: bool
  ecm_event_thread :: "nat option"
  ecm_event_handler :: "cy_ecm_event_callback_t option list"
  is_ethernet_initiated :: "bool list"
  is_ethernet_link_up :: "bool list"
  is_ecm_thread_created :: "8 word"
  eth_index_internal :: nat

text \<open>The arrays have the sizes of their C declarations.\<close>

definition state_wf :: "ecm_state \<Rightarrow> bool" where
  "state_wf g \<longleftrightarrow>
     length (ecm_event_handler g) = CY_ECM_MAXIMUM_CALLBACKS_COUNT \<and>
     length (is_ethernet_initiated g) = CY_ECM_ETH_INTERFACE_MAX \<and>
     length (is_ethernet_link_up g) = CY_ECM_ETH_INTERFACE_MAX"

text \<open>
  A PHY link-status callback gets the interface index and a pointer to a 32-bit
  variable: it returns a result code and the content of the variable after the call.
\<close>

type_synonym phy_get_linkstatus_t = "nat \<Rightarrow> 32 word \<Rightarrow> cy_rslt_t \<times> 32 word"

section \<open>Event dispatch and the link monitor\<close>

text \<open>
  \<^verbatim>\<open>invoke_app_callbacks\<close>: the slots \<open>0 .. CY_ECM_MAXIMUM_CALLBACKS_COUNT - 1\<close> in order,
  each non-NULL one is called. Application callbacks are taken not to call back into
  the manager.
\<close>

definition invoke_app_callbacks ::
  "cy_ecm_event_callback_t option list \<Rightarrow> cy_ecm_event_t \<Rightarrow> call list" where
  "invoke_app_callbacks handlers event_type =
     concat (map (\<lambda>i. case handlers ! i of
                         None \<Rightarrow> []
                       | Some cb \<Rightarrow> [App_callback cb event_type])
                 [0 ..< CY_ECM_MAXIMUM_CALLBACKS_COUNT])"

text \<open>
  One branch of the body of the monitor loop. The C text has the same block twice,
  once with \<open>CY_ECM_INTERFACE_ETH0\<close> and once with \<open>CY_ECM_INTERFACE_ETH1\<close>; \<open>idx\<close> is
  that index. \<open>linkstatus\<close> is the local variable of the thread function, which
  lives across iterations.
\<close>

definition monitor_poll ::
  "phy_get_linkstatus_t \<Rightarrow> nat \<Rightarrow> ecm_state \<Rightarrow> 32 word \<Rightarrow> ecm_state \<times> 32 word \<times> call list" where
  "monitor_poll phy idx g linkstatus =
     (case phy idx linkstatus of (result, linkstatus') \<Rightarrow>
        if result = CY_RSLT_SUCCESS then
          if linkstatus' = 1 then
            if is_ethernet_link_up g ! idx = False then
              (g\<lparr>is_ethernet_link_up := (is_ethernet_link_up g)[idx := True]\<rparr>, linkstatus',
               Phy_get_linkstatus idx #
                 invoke_app_callbacks (ecm_event_handler g) CY_ECM_EVENT_CONNECTED)
            else (g, linkstatus', [Phy_get_linkstatus idx])
          else
            if is_ethernet_link_up g ! idx = True then
              (g\<lparr>is_ethernet_link_up := (is_ethernet_link_up g)[idx := False]\<rparr>, linkstatus',
               Phy_get_linkstatus idx #
                 invoke_app_callbacks (ecm_event_handler g) CY_ECM_EVENT_DISCONNECTED)
            else (g, linkstatus', [Phy_get_linkstatus idx])
        else (g, linkstatus', [Phy_get_linkstatus idx]))"

text \<open>One iteration of \<^verbatim>\<open>while( true )\<close> in \<^verbatim>\<open>ecm_event_thread_func\<close>.\<close>

definition ecm_event_thread_iteration ::
  "phy_get_linkstatus_t \<Rightarrow> ecm_state \<Rightarrow> 32 word \<Rightarrow> ecm_state \<times> 32 word \<times> call list" where
  "ecm_event_thread_iteration phy g linkstatus =
     (case (if is_ethernet_initiated g ! CY_ECM_INTERFACE_ETH0 = True
            then monitor_poll phy CY_ECM_INTERFACE_ETH0 g linkstatus
            else if is_ethernet_initiated g ! CY_ECM_INTERFACE_ETH1 = True
            then monitor_poll phy CY_ECM_INTERFACE_ETH1 g linkstatus
            else (g, linkstatus, []))
      of (g', linkstatus', calls) \<Rightarrow>
        (g', linkstatus',
         calls @ [Cy_rtos_delay_milliseconds CY_POLL_ETHERNET_PHY_STATUS_TIME]))"

text \<open>
  The thread function never returns; its first \<open>n\<close> iterations, the \<open>k\<close>-th one
  with the PHY as it answers then.
\<close>

fun ecm_event_thread_func ::
  "(nat \<Rightarrow> phy_get_linkstatus_t) \<Rightarrow> nat \<Rightarrow> nat \<Rightarrow> ecm_state \<Rightarrow> 32 word
     \<Rightarrow> ecm_state \<times> 32 word \<times> call list" where
  "ecm_event_thread_func phy k 0 g linkstatus = (g, linkstatus, [])"
| "ecm_event_thread_func phy k (Suc n) g linkstatus =
     (case ecm_event_thread_iteration (phy k) g linkstatus of (g', linkstatus', calls) \<Rightarrow>
        (case ecm_event_thread_func phy (Suc k) n g' linkstatus' of (g'', linkstatus'', calls') \<Rightarrow>
           (g'', linkstatus'', calls @ calls')))"

section \<open>Collaborators\<close>

text \<open>
  What the RTOS, the network stack and the drivers answer during one call of an API
  function. A collaborator that is called in a loop answers by the number of the call,
  counted from 0. A collaborator that writes through a pointer answers with the value
  it leaves there.
\<close>

record env =
  cy_network_init_r :: cy_rslt_t
  cy_rtos_init_mutex2_ecm_mutex_r :: cy_rslt_t
  cy_rtos_get_mutex_r :: cy_rslt_t
  cy_rtos_set_mutex_r :: cy_rslt_t
  malloc_ok :: bool
  cy_rtos_init_mutex2_obj_mutex_r :: cy_rslt_t
  cy_eth_driver_initialization_r :: cy_rslt_t
  cy_rtos_create_thread_r :: "cy_rslt_t \<times> nat option"
  cy_network_add_nw_interface_r :: "cy_rslt_t \<times> nat option"
  cy_network_ip_up_r :: cy_rslt_t
  cy_network_get_ip_address_r :: "nat \<Rightarrow> cy_rslt_t \<times> 32 word"
  phy_get_linkstatus_r :: "nat \<Rightarrow> phy_get_linkstatus_t"
  phy_get_linkspeed_r :: "nat \<Rightarrow> cy_rslt_t \<times> 32 word \<times> 32 word"

section \<open>Initialization of the manager\<close>

text \<open>\<^verbatim>\<open>cy_ecm_init\<close>. The label \<^verbatim>\<open>exit\<close> is reached from the mutex failure only.\<close>

definition cy_ecm_init :: "env \<Rightarrow> ecm_state \<Rightarrow> cy_rslt_t \<times> ecm_state \<times> call list" where
  "cy_ecm_init e g =
     (if is_ecm_initialized g then (CY_RSLT_ECM_INIT_ERROR, g, [])
      else if \<not> is_tcp_initialized g \<and> cy_network_init_r e \<noteq> CY_RSLT_SUCCESS
      then (CY_RSLT_ECM_NW_INIT_ERROR, g, [Cy_network_init])
      else
        let g1 = (if \<not> is_tcp_initialized g then g\<lparr>is_tcp_initialized := True\<rparr> else g);
            calls1 = (if \<not> is_tcp_initialized g then [Cy_network_init] else [])
        in if cy_rtos_init_mutex2_ecm_mutex_r e \<noteq> CY_RSLT_SUCCESS then
             let g2 = g1\<lparr>is_tcp_initialized := False\<rparr>
             in (CY_RSLT_ECM_MUTEX_ERROR, g2,
                 calls1 @ [Cy_rtos_init_mutex2_ecm_mutex] @
                   (if \<not> is_tcp_initialized g2 then [Cy_network_deinit] else []))
           else (cy_rtos_init_mutex2_ecm_mutex_r e, g1\<lparr>is_ecm_initialized := True\<rparr>,
                 calls1 @ [Cy_rtos_init_mutex2_ecm_mutex]))"

section \<open>Interface handles\<close>

datatype ETH_Type = ETH0 | ETH1

text \<open>The PHY operation table: nine function pointers, \<open>None\<close> is \<^verbatim>\<open>NULL\<close>.\<close>

record cy_ecm_phy_callbacks_t =
  phy_init :: "nat option"
  phy_configure :: "nat option"
  phy_reset :: "nat option"
  phy_discover :: "nat option"
  phy_enable_ext_reg :: "nat option"
  phy_get_auto_neg_status :: "nat option"
  phy_get_link_partner_cap :: "nat option"
  phy_get_linkspeed :: "nat option"
  phy_get_linkstatus :: "nat option"

text \<open>
  \<^verbatim>\<open>cy_ecm_object_t\<close>. The field \<^verbatim>\<open>obj_mutex\<close> has no content of its own here: its
  creation and destruction are calls to the RTOS.
\<close>

record cy_ecm_object_t =
  eth_idx :: nat
  eth_base_type :: "ETH_Type option"
  iface_context :: "nat option"
  eth_phy_cb :: cy_ecm_phy_callbacks_t
  user_data :: "nat option"
  isobjinitialized :: bool
  network_up :: bool
  mac_address :: "8 word list"

text \<open>
  The content of a \<^verbatim>\<open>cy_ecm_t\<close> variable: \<^verbatim>\<open>NULL\<close>, a pointer to a live object, or a
  pointer to an object that has been freed.
\<close>

datatype cy_ecm_t = Null_handle | Live_handle cy_ecm_object_t | Freed_handle

text \<open>
  The build configuration (the generated \<^verbatim>\<open>cycfg.h\<close>): which interfaces are enabled,
  their MAC addresses and frame filters, and the number of Ethernet instances of the
  device.
\<close>

record ecm_config =
  eth_0_ENABLED :: bool
  eth_1_ENABLED :: bool
  eth_0_MAC_ADDR :: "8 word list"
  eth_1_MAC_ADDR :: "8 word list"
  eth_0_PROMISCUOUS_MODE :: bool
  eth_0_ACCEPT_BROADCASR_FRAMES :: bool
  eth_1_PROMISCUOUS_MODE :: bool
  eth_1_ACCEPT_BROADCASR_FRAMES :: bool
  CY_IP_MXETH_INSTANCES :: nat

text \<open>The macro \<^verbatim>\<open>ETH_INTERFACE_TYPE\<close> of \<^verbatim>\<open>eth_internal.h\<close>.\<close>

definition ETH_INTERFACE_TYPE :: "ecm_config \<Rightarrow> ecm_state \<Rightarrow> ETH_Type" where
  "ETH_INTERFACE_TYPE cfg g =
     (if CY_IP_MXETH_INSTANCES cfg > 1
      then (if eth_index_internal g = CY_ECM_INTERFACE_ETH1 then ETH1 else ETH0)
      else ETH0)"

text \<open>The object after \<^verbatim>\<open>memset( ecm_obj, 0x00, sizeof( cy_ecm_object_t ) )\<close>.\<close>

definition zeroed_object :: cy_ecm_object_t where
  "zeroed_object =
     \<lparr>eth_idx = 0, eth_base_type = None, iface_context = None,
      eth_phy_cb = \<lparr>phy_init = None, phy_configure = None, phy_reset = None,
                    phy_discover = None, phy_enable_ext_reg = None,
                    phy_get_auto_neg_status = None, phy_get_link_partner_cap = None,
                    phy_get_linkspeed = None, phy_get_linkstatus = None\<rparr>,
      user_data = None, isobjinitialized = False, network_up = False,
      mac_address = replicate 6 0\<rparr>"

text \<open>
  The label \<^verbatim>\<open>exit\<close> of \<^verbatim>\<open>cy_ecm_ethif_init\<close>. \<open>allocated\<close> says that \<^verbatim>\<open>ecm_obj\<close> is not
  \<^verbatim>\<open>NULL\<close>, \<open>obj_mutex_init_status\<close> is the local variable of that name. The caller's
  handle variable is not written here; \<open>ecm_handle\<close> is its content when the function
  returns.
\<close>

definition ethif_init_exit ::
  "env \<Rightarrow> cy_rslt_t \<Rightarrow> ecm_state \<Rightarrow> cy_ecm_t option \<Rightarrow> bool \<Rightarrow> bool \<Rightarrow> call list
     \<Rightarrow> cy_rslt_t \<times> ecm_state \<times> cy_ecm_t option \<times> call list" where
  "ethif_init_exit e result g ecm_handle allocated obj_mutex_init_status calls =
     (let calls1 = (if allocated
                    then (if obj_mutex_init_status = True
                          then [Cy_rtos_deinit_mutex_obj_mutex] else []) @ [Free_ecm_obj]
                    else [])
      in ((if cy_rtos_set_mutex_r e \<noteq> CY_RSLT_SUCCESS then CY_RSLT_ECM_MUTEX_ERROR else result),
          g, ecm_handle, calls @ calls1 @ [Cy_rtos_set_mutex]))"

text \<open>
  \<^verbatim>\<open>cy_ecm_ethif_init\<close>. \<open>ecm_handle\<close> is \<open>None\<close> for a \<^verbatim>\<open>NULL\<close> pointer and otherwise the
  content of the caller's handle variable; the third component of the result is that
  variable after the call: once \<^verbatim>\<open>*ecm_handle = (cy_ecm_t *)ecm_obj\<close> has run, a path
  through \<^verbatim>\<open>exit\<close> frees the object and leaves the variable pointing to it. The hardware
  initialization of \<^verbatim>\<open>eth_internal.c\<close> is a collaborator.
\<close>

definition cy_ecm_ethif_init ::
  "ecm_config \<Rightarrow> env \<Rightarrow> ecm_state \<Rightarrow> nat \<Rightarrow> cy_ecm_phy_callbacks_t option \<Rightarrow> cy_ecm_t option
     \<Rightarrow> cy_rslt_t \<times> ecm_state \<times> cy_ecm_t option \<times> call list" where
  "cy_ecm_ethif_init cfg e g idx phy_callbacks ecm_handle =
     (if ecm_handle = None \<or> idx \<ge> CY_ECM_INTERFACE_INVALID
      then (CY_RSLT_MODULE_ECM_BADARG, g, ecm_handle, [])
      else if (if idx = CY_ECM_INTERFACE_ETH1 then \<not> eth_1_ENABLED cfg else \<not> eth_0_ENABLED cfg)
      then (CY_RSLT_MODULE_ECM_BADARG, g, ecm_handle, [])
      else case phy_callbacks of
        None \<Rightarrow> (CY_RSLT_MODULE_ECM_BADARG, g, ecm_handle, [])
      | Some cbs \<Rightarrow>
        if phy_init cbs = None \<or> phy_configure cbs = None \<or>
           phy_discover cbs = None \<or> phy_enable_ext_reg cbs = None \<or>
           phy_get_auto_neg_status cbs = None \<or> phy_get_link_partner_cap cbs = None \<or>
           phy_get_linkspeed cbs = None \<or> phy_get_linkstatus cbs = None \<or>
           phy_reset cbs = None
        then (CY_RSLT_MODULE_ECM_BADARG, g, ecm_handle, [])
        else if \<not> is_ecm_initialized g
        then (CY_RSLT_MODULE_ECM_NOT_INITIALIZED, g, ecm_handle, [])
        else if cy_rtos_get_mutex_r e \<noteq> CY_RSLT_SUCCESS
        then (CY_RSLT_ECM_MUTEX_ERROR, g, ecm_handle, [Cy_rtos_get_mutex])
        else if is_ethernet_initiated g ! idx = True
        then ethif_init_exit e CY_RSLT_ECM_INIT_ERROR g ecm_handle False False
               [Cy_rtos_get_mutex]
        else if \<not> malloc_ok e
        then ethif_init_exit e CY_RSLT_ECM_ERROR_NOMEM g ecm_handle False False
               [Cy_rtos_get_mutex, Malloc_ecm_obj]
        else if cy_rtos_init_mutex2_obj_mutex_r e \<noteq> CY_RSLT_SUCCESS
        then ethif_init_exit e CY_RSLT_ECM_MUTEX_ERROR g ecm_handle True False
               [Cy_rtos_get_mutex, Malloc_ecm_obj, Cy_rtos_init_mutex2_obj_mutex]
        else
          let g1 = g\<lparr>eth_index_internal := idx\<rparr>;
              obj1 = zeroed_object
                       \<lparr>eth_idx := idx,
                        eth_base_type := Some (ETH_INTERFACE_TYPE cfg g1),
                        iface_context := None,
                        eth_phy_cb := cbs,
                        isobjinitialized := True,
                        network_up := False\<rparr>;
              obj2 = (if idx = CY_ECM_INTERFACE_ETH1 \<and> eth_1_ENABLED cfg
                      then obj1\<lparr>mac_address := eth_1_MAC_ADDR cfg\<rparr> else obj1);
              obj = (if idx = CY_ECM_INTERFACE_ETH0 \<and> eth_0_ENABLED cfg
                     then obj2\<lparr>mac_address := eth_0_MAC_ADDR cfg\<rparr> else obj2);
              ecm_handle1 = Some (Live_handle obj);
              calls1 = [Cy_rtos_get_mutex, Malloc_ecm_obj, Cy_rtos_init_mutex2_obj_mutex,
                        Cyhal_syspm_lock_deepsleep, Cy_eth_driver_initialization idx]
          in if cy_eth_driver_initialization_r e \<noteq> CY_RSLT_SUCCESS
             then ethif_init_exit e CY_RSLT_ECM_ERROR g1 (Some Freed_handle) True True
                    (calls1 @ [Cyhal_syspm_unlock_deepsleep])
             else
               let calls2 = calls1 @
                     (if eth_0_ENABLED cfg
                      then (if eth_0_PROMISCUOUS_MODE cfg = True
                            then [Cy_ETHIF_SetPromiscuousMode] else []) @
                           (if eth_0_ACCEPT_BROADCASR_FRAMES cfg = False
                            then [Cy_ETHIF_SetNoBroadCast] else [])
                      else []) @
                     (if eth_1_ENABLED cfg
                      then (if eth_1_PROMISCUOUS_MODE cfg = True
                            then [Cy_ETHIF_SetPromiscuousMode] else []) @
                           (if eth_1_ACCEPT_BROADCASR_FRAMES cfg = False
                            then [Cy_ETHIF_SetNoBroadCast] else [])
                      else []);
                   g2 = g1\<lparr>is_ethernet_initiated := (is_ethernet_initiated g1)[eth_idx obj := True]\<rparr>;
                   calls3 = calls2 @ [Cyhal_syspm_unlock_deepsleep]
               in if is_ecm_thread_created g2 = 0 \<and>
                     fst (cy_rtos_create_thread_r e) \<noteq> CY_RSLT_SUCCESS
                  then ethif_init_exit e CY_RSLT_ECM_ERROR
                         (g2\<lparr>ecm_event_thread := snd (cy_rtos_create_thread_r e)\<rparr>)
                         (Some Freed_handle) True True (calls3 @ [Cy_rtos_create_thread])
                  else
                    let g3 = (if is_ecm_thread_created g2 = 0
                              then g2\<lparr>ecm_event_thread := snd (cy_rtos_create_thread_r e)\<rparr>
                              else g2);
                        calls4 = calls3 @
                          (if is_ecm_thread_created g2 = 0 then [Cy_rtos_create_thread] else []);
                        g4 = g3\<lparr>is_ecm_thread_created := is_ecm_thread_created g3 + 1\<rparr>
                    in ((if cy_rtos_set_mutex_r e \<noteq> CY_RSLT_SUCCESS
                         then CY_RSLT_ECM_MUTEX_ERROR else cy_rtos_set_mutex_r e),
                        g4, ecm_handle1, calls4 @ [Cy_rtos_set_mutex]))"

section \<open>Connect\<close>

text \<open>
  \<^verbatim>\<open>cy_ecm_ip_address_t\<close> of \<^verbatim>\<open>cy_ecm.h\<close>: a version and a union of an IPv4 address
  \<^verbatim>\<open>v4\<close> (one 32-bit word) and an IPv6 address \<^verbatim>\<open>v6\<close> (four 32-bit words). \<open>ip\<close> is the
  storage of the union as four words; \<^verbatim>\<open>ip.v4\<close> is the first of them.
\<close>

record cy_ecm_ip_address_t =
  version :: "32 word"
  ip :: "32 word list"

definition CY_ECM_IP_VER_V4 :: "32 word" where
  "CY_ECM_IP_VER_V4 = 4"

record cy_ecm_ip_setting_t =
  ip_address :: cy_ecm_ip_address_t
  netmask :: cy_ecm_ip_address_t
  gateway :: cy_ecm_ip_address_t

text \<open>\<^verbatim>\<open>memset( ip_addr, 0, sizeof( cy_ecm_ip_address_t ) )\<close>.\<close>

definition zeroed_ip_address :: cy_ecm_ip_address_t where
  "zeroed_ip_address = \<lparr>version = 0, ip = replicate 4 0\<rparr>"

text \<open>
  The link wait of \<^verbatim>\<open>cy_ecm_connect\<close>: the \<^verbatim>\<open>while\<close> loop on \<^verbatim>\<open>total_wait_time\<close>. \<open>k\<close>
  counts the calls to the PHY. The result is the values of \<^verbatim>\<open>result\<close>,
  \<^verbatim>\<open>total_wait_time\<close> and \<^verbatim>\<open>linkstatus\<close> after the loop, and the calls made.
\<close>

function connect_link_wait ::
  "(nat \<Rightarrow> phy_get_linkstatus_t) \<Rightarrow> nat \<Rightarrow> nat \<Rightarrow> 32 word \<Rightarrow> 32 word \<Rightarrow> cy_rslt_t \<Rightarrow> call list
     \<Rightarrow> cy_rslt_t \<times> 32 word \<times> 32 word \<times> call list" where
  "connect_link_wait phy idx k total_wait_time linkstatus result calls =
     (if total_wait_time < MAX_WAIT_ETHERNET_PHY_STATUS then
        (case phy k idx linkstatus of (result', linkstatus') \<Rightarrow>
           if result' = CY_RSLT_SUCCESS \<and> linkstatus' = 1
           then (result', total_wait_time, linkstatus', calls @ [Phy_get_linkstatus idx])
           else connect_link_wait phy idx (Suc k)
                  (total_wait_time + WAIT_CHECK_ETHERNET_PHY_STATUS) linkstatus' result'
                  (calls @ [Phy_get_linkstatus idx,
                            Cy_rtos_delay_milliseconds (unat WAIT_CHECK_ETHERNET_PHY_STATUS)]))
      else (result, total_wait_time, linkstatus, calls))"
  by pat_completeness auto
termination
  by (relation "measure (\<lambda>(phy, idx, k, t, ls, r, c). unat MAX_WAIT_ETHERNET_PHY_STATUS - unat t)")
     (auto simp: MAX_WAIT_ETHERNET_PHY_STATUS_def WAIT_CHECK_ETHERNET_PHY_STATUS_def
                 word_less_nat_alt unat_word_ariths)

text \<open>
  The address wait of \<^verbatim>\<open>cy_ecm_connect\<close>: \<^verbatim>\<open>while ( true )\<close>, left by \<^verbatim>\<open>break\<close> when the
  network stack returns an address and in no other way. \<open>None\<close> is a loop that does not
  end. The result is \<^verbatim>\<open>result\<close>, the IPv4 address, \<^verbatim>\<open>total_wait_time\<close> and the calls made.
\<close>

partial_function (option) connect_dhcp_wait ::
  "(nat \<Rightarrow> cy_rslt_t \<times> 32 word) \<Rightarrow> nat \<Rightarrow> 32 word \<Rightarrow> call list
     \<Rightarrow> (cy_rslt_t \<times> 32 word \<times> 32 word \<times> call list) option" where
  "connect_dhcp_wait nw k total_wait_time calls =
     (case nw k of (result, v4) \<Rightarrow>
        if result = CY_RSLT_SUCCESS
        then Some (result, v4, total_wait_time, calls @ [Cy_network_get_ip_address])
        else connect_dhcp_wait nw (Suc k) (total_wait_time + RETRY_WAIT_TIME_GET_IP_ADDR)
               (calls @ [Cy_network_get_ip_address,
                         Cy_rtos_delay_milliseconds (unat RETRY_WAIT_TIME_GET_IP_ADDR)]))"

text \<open>The result of \<^verbatim>\<open>cy_ecm_connect\<close>: what it returns and what it leaves behind.\<close>

record connect_result =
  cr_result :: cy_rslt_t
  cr_state :: ecm_state
  cr_object :: "cy_ecm_object_t option"
  cr_ip_addr :: "cy_ecm_ip_address_t option"
  cr_calls :: "call list"

text \<open>The label \<^verbatim>\<open>exit\<close> of \<^verbatim>\<open>cy_ecm_connect\<close>.\<close>

definition connect_exit ::
  "env \<Rightarrow> cy_rslt_t \<Rightarrow> ecm_state \<Rightarrow> cy_ecm_object_t \<Rightarrow> cy_ecm_ip_address_t option \<Rightarrow> call list
     \<Rightarrow> connect_result" where
  "connect_exit e result g obj ip_addr calls =
     \<lparr>cr_result = (if cy_rtos_set_mutex_r e \<noteq> CY_RSLT_SUCCESS
                   then CY_RSLT_ECM_MUTEX_ERROR else result),
      cr_state = g, cr_object = Some obj, cr_ip_addr = ip_addr,
      cr_calls = calls @ [Cy_rtos_set_mutex]\<rparr>"

text \<open>
  \<^verbatim>\<open>cy_ecm_connect\<close> from \<^verbatim>\<open>cy_network_ip_up\<close> to the end: the IP layer is brought up, the
  address is waited for, and \<^verbatim>\<open>total_wait_time\<close> is compared with \<open>DHCP_TIMEOUT_COUNT\<close>
  after the loop.
\<close>

definition connect_ip_up ::
  "env \<Rightarrow> ecm_state \<Rightarrow> cy_ecm_object_t \<Rightarrow> cy_ecm_ip_address_t option \<Rightarrow> call list
     \<Rightarrow> connect_result option" where
  "connect_ip_up e g obj ip_addr calls =
     (if cy_network_ip_up_r e \<noteq> CY_RSLT_SUCCESS then
        Some (connect_exit e
                (if cy_network_ip_up_r e = CY_RSLT_NETWORK_ERROR_STARTING_DHCP
                 then CY_RSLT_MODULE_ECM_ERROR_STARTING_DHCP
                 else if cy_network_ip_up_r e = CY_RSLT_NETWORK_DHCP_WAIT_TIMEOUT
                 then CY_RSLT_ECM_DHCP_TIMEOUT
                 else cy_network_ip_up_r e)
                g obj ip_addr (calls @ [Cy_network_ip_up, Cy_network_remove_nw_interface]))
      else
        (case connect_dhcp_wait (cy_network_get_ip_address_r e) 0 0 (calls @ [Cy_network_ip_up]) of
           None \<Rightarrow> None
         | Some (result, v4, total_wait_time, calls1) \<Rightarrow>
             let ip_addr1 = (case ip_addr of
                               None \<Rightarrow> None
                             | Some a \<Rightarrow> Some (a\<lparr>version := CY_ECM_IP_VER_V4,
                                                 ip := (ip a)[0 := v4]\<rparr>))
             in if total_wait_time > DHCP_TIMEOUT_COUNT
                then Some (connect_exit e CY_RSLT_ECM_DHCP_TIMEOUT g obj ip_addr1
                             (calls1 @ [Cy_network_ip_down, Cy_network_remove_nw_interface]))
                else Some (connect_exit e result g (obj\<lparr>network_up := True\<rparr>) ip_addr1 calls1)))"

text \<open>
  \<^verbatim>\<open>cy_ecm_connect\<close>. \<open>ecm_handle\<close> is \<open>None\<close> for \<^verbatim>\<open>NULL\<close> and otherwise the object the
  handle points to; \<open>ecm_static_ip_addr\<close> and \<open>ip_addr\<close> are \<open>None\<close> for \<^verbatim>\<open>NULL\<close> and
  otherwise the content of the structure. The result is \<open>None\<close> when the call does not
  return.
\<close>

definition cy_ecm_connect ::
  "env \<Rightarrow> ecm_state \<Rightarrow> cy_ecm_object_t option \<Rightarrow> cy_ecm_ip_setting_t option
     \<Rightarrow> cy_ecm_ip_address_t option \<Rightarrow> connect_result option" where
  "cy_ecm_connect e g ecm_handle ecm_static_ip_addr ip_addr =
     (case ecm_handle of
        None \<Rightarrow> Some \<lparr>cr_result = CY_RSLT_MODULE_ECM_BADARG, cr_state = g, cr_object = None,
                      cr_ip_addr = ip_addr, cr_calls = []\<rparr>
      | Some obj \<Rightarrow>
        if \<not> is_ecm_initialized g
        then Some \<lparr>cr_result = CY_RSLT_MODULE_ECM_NOT_INITIALIZED, cr_state = g,
                   cr_object = Some obj, cr_ip_addr = ip_addr, cr_calls = []\<rparr>
        else if cy_rtos_get_mutex_r e \<noteq> CY_RSLT_SUCCESS
        then Some \<lparr>cr_result = CY_RSLT_ECM_MUTEX_ERROR, cr_state = g,
                   cr_object = Some obj, cr_ip_addr = ip_addr, cr_calls = [Cy_rtos_get_mutex]\<rparr>
        else if isobjinitialized obj \<noteq> True
        then Some (connect_exit e CY_RSLT_MODULE_ECM_NOT_INITIALIZED g obj ip_addr
                     [Cy_rtos_get_mutex])
        else if network_up obj = True
        then Some (connect_exit e CY_RSLT_MODULE_ECM_ALREADY_CONNECTED g obj ip_addr
                     [Cy_rtos_get_mutex])
        else if (case ecm_static_ip_addr of
                   None \<Rightarrow> False
                 | Some s \<Rightarrow> version (gateway s) \<noteq> CY_ECM_IP_VER_V4)
        then Some (connect_exit e CY_RSLT_ECM_STATIC_IP_NOT_SUPPORTED g obj ip_addr
                     [Cy_rtos_get_mutex])
        else
          let obj1 = obj\<lparr>iface_context := snd (cy_network_add_nw_interface_r e)\<rparr>;
              calls1 = [Cy_rtos_get_mutex, Cy_network_add_nw_interface (eth_idx obj)]
          in if fst (cy_network_add_nw_interface_r e) \<noteq> CY_RSLT_SUCCESS
             then Some (connect_exit e CY_RSLT_ECM_INTERFACE_ERROR g obj1 ip_addr calls1)
             else
               let calls2 = calls1 @ [Cy_network_register_ip_change_cb]
               in if is_ethernet_link_up g ! eth_idx obj \<noteq> True then
                    (case connect_link_wait (phy_get_linkstatus_r e) (eth_idx obj) 0 0 0
                            (fst (cy_network_add_nw_interface_r e)) calls2 of
                       (result, total_wait_time, linkstatus, calls3) \<Rightarrow>
                         if total_wait_time \<ge> MAX_WAIT_ETHERNET_PHY_STATUS
                         then Some (connect_exit e CY_RSLT_ECM_ERROR g obj1 ip_addr calls3)
                         else connect_ip_up e
                                (g\<lparr>is_ethernet_link_up :=
                                     (is_ethernet_link_up g)[eth_idx obj := True]\<rparr>)
                                obj1 ip_addr calls3)
                  else connect_ip_up e g obj1 ip_addr calls2)"

section \<open>The callback registry\<close>

text \<open>
  The loop of \<^verbatim>\<open>cy_ecm_register_event_callback\<close> from slot \<open>i\<close> on: the first \<^verbatim>\<open>NULL\<close>
  slot takes the callback and the loop is left.
\<close>

function register_scan ::
  "cy_ecm_event_callback_t option list \<Rightarrow> cy_ecm_event_callback_t \<Rightarrow> nat
     \<Rightarrow> cy_ecm_event_callback_t option list" where
  "register_scan handlers event_callback i =
     (if i < CY_ECM_MAXIMUM_CALLBACKS_COUNT then
        (if handlers ! i = None then handlers[i := Some event_callback]
         else register_scan handlers event_callback (Suc i))
      else handlers)"
  by pat_completeness auto
termination
  by (relation "measure (\<lambda>(h, c, i). CY_ECM_MAXIMUM_CALLBACKS_COUNT - i)") auto

text \<open>
  \<^verbatim>\<open>cy_ecm_register_event_callback\<close>. At \<^verbatim>\<open>exit\<close> the result of releasing the mutex is
  assigned to \<^verbatim>\<open>result\<close>, whatever it held.
\<close>

definition cy_ecm_register_event_callback ::
  "env \<Rightarrow> ecm_state \<Rightarrow> cy_ecm_object_t option \<Rightarrow> cy_ecm_event_callback_t option
     \<Rightarrow> cy_rslt_t \<times> ecm_state \<times> call list" where
  "cy_ecm_register_event_callback e g ecm_handle event_callback =
     (case (ecm_handle, event_callback) of
        (Some obj, Some cb) \<Rightarrow>
          if \<not> is_ecm_initialized g then (CY_RSLT_MODULE_ECM_NOT_INITIALIZED, g, [])
          else if cy_rtos_get_mutex_r e \<noteq> CY_RSLT_SUCCESS
          then (CY_RSLT_ECM_MUTEX_ERROR, g, [Cy_rtos_get_mutex])
          else
            let g1 = (if isobjinitialized obj \<noteq> True then g
                      else g\<lparr>ecm_event_handler := register_scan (ecm_event_handler g) cb 0\<rparr>)
            in ((if cy_rtos_set_mutex_r e \<noteq> CY_RSLT_SUCCESS
                 then CY_RSLT_ECM_MUTEX_ERROR else cy_rtos_set_mutex_r e),
                g1, [Cy_rtos_get_mutex, Cy_rtos_set_mutex])
      | _ \<Rightarrow> (CY_RSLT_MODULE_ECM_BADARG, g, []))"

text \<open>
  The loop of \<^verbatim>\<open>cy_ecm_deregister_event_callback\<close> from slot \<open>i\<close> on: the first slot
  that holds the callback is set to \<^verbatim>\<open>NULL\<close> and the loop is left.
\<close>

function deregister_scan ::
  "cy_ecm_event_callback_t option list \<Rightarrow> cy_ecm_event_callback_t \<Rightarrow> nat
     \<Rightarrow> cy_ecm_event_callback_t option list" where
  "deregister_scan handlers event_callback i =
     (if i < CY_ECM_MAXIMUM_CALLBACKS_COUNT then
        (if handlers ! i = Some event_callback then handlers[i := None]
         else deregister_scan handlers event_callback (Suc i))
      else handlers)"
  by pat_completeness auto
termination
  by (relation "measure (\<lambda>(h, c, i). CY_ECM_MAXIMUM_CALLBACKS_COUNT - i)") auto

definition cy_ecm_deregister_event_callback ::
  "env \<Rightarrow> ecm_state \<Rightarrow> cy_ecm_object_t option \<Rightarrow> cy_ecm_event_callback_t option
     \<Rightarrow> cy_rslt_t \<times> ecm_state \<times> call list" where
  "cy_ecm_deregister_event_callback e g ecm_handle event_callback =
     (case (ecm_handle, event_callback) of
        (Some obj, Some cb) \<Rightarrow>
          if \<not> is_ecm_initialized g then (CY_RSLT_MODULE_ECM_NOT_INITIALIZED, g, [])
          else if cy_rtos_get_mutex_r e \<noteq> CY_RSLT_SUCCESS
          then (CY_RSLT_ECM_MUTEX_ERROR, g, [Cy_rtos_get_mutex])
          else
            let g1 = (if isobjinitialized obj \<noteq> True then g
                      else g\<lparr>ecm_event_handler := deregister_scan (ecm_event_handler g) cb 0\<rparr>)
            in ((if cy_rtos_set_mutex_r e \<noteq> CY_RSLT_SUCCESS
                 then CY_RSLT_ECM_MUTEX_ERROR else cy_rtos_set_mutex_r e),
                g1, [Cy_rtos_get_mutex, Cy_rtos_set_mutex])
      | _ \<Rightarrow> (CY_RSLT_MODULE_ECM_BADARG, g, []))"

section \<open>Getters\<close>

text \<open>
  The loop of \<^verbatim>\<open>cy_ecm_get_link_status\<close>. The result is \<^verbatim>\<open>result\<close>, \<^verbatim>\<open>total_wait_time\<close>
  and \<^verbatim>\<open>*status\<close> after the loop, and the calls made.
\<close>

function get_link_status_wait ::
  "(nat \<Rightarrow> phy_get_linkstatus_t) \<Rightarrow> nat \<Rightarrow> nat \<Rightarrow> 32 word \<Rightarrow> 32 word \<Rightarrow> cy_rslt_t \<Rightarrow> bool
     \<Rightarrow> call list \<Rightarrow> cy_rslt_t \<times> 32 word \<times> bool \<times> call list" where
  "get_link_status_wait phy idx k total_wait_time linkstatus result status calls =
     (if total_wait_time < MAX_WAIT_ETHERNET_PHY_STATUS then
        (case phy k idx linkstatus of (result', linkstatus') \<Rightarrow>
           if result' = CY_RSLT_SUCCESS \<and> linkstatus' = 1
           then (result', total_wait_time, True, calls @ [Phy_get_linkstatus idx])
           else get_link_status_wait phy idx (Suc k)
                  (total_wait_time + WAIT_CHECK_ETHERNET_PHY_STATUS) linkstatus' result' status
                  (calls @ [Phy_get_linkstatus idx,
                            Cy_rtos_delay_milliseconds (unat WAIT_CHECK_ETHERNET_PHY_STATUS)]))
      else (result, total_wait_time, status, calls))"
  by pat_completeness auto
termination
  by (relation "measure (\<lambda>(phy, idx, k, t, ls, r, st, c).
                  unat MAX_WAIT_ETHERNET_PHY_STATUS - unat t)")
     (auto simp: MAX_WAIT_ETHERNET_PHY_STATUS_def WAIT_CHECK_ETHERNET_PHY_STATUS_def
                 word_less_nat_alt unat_word_ariths)

text \<open>
  \<^verbatim>\<open>cy_ecm_get_link_status\<close>. \<open>status\<close> is \<open>None\<close> for a \<^verbatim>\<open>NULL\<close> pointer and otherwise the
  content of the caller's variable; the second component of the result is that variable
  after the call.
\<close>

definition cy_ecm_get_link_status ::
  "env \<Rightarrow> ecm_state \<Rightarrow> cy_ecm_object_t option \<Rightarrow> bool option
     \<Rightarrow> cy_rslt_t \<times> bool option \<times> call list" where
  "cy_ecm_get_link_status e g ecm_handle status =
     (case (ecm_handle, status) of
        (Some obj, Some st) \<Rightarrow>
          if \<not> is_ecm_initialized g then (CY_RSLT_MODULE_ECM_NOT_INITIALIZED, status, [])
          else if cy_rtos_get_mutex_r e \<noteq> CY_RSLT_SUCCESS
          then (CY_RSLT_ECM_MUTEX_ERROR, status, [Cy_rtos_get_mutex])
          else
            (case get_link_status_wait (phy_get_linkstatus_r e) (eth_idx obj) 0 0 0
                    (cy_rtos_get_mutex_r e) st [Cy_rtos_get_mutex] of
               (result, total_wait_time, st1, calls) \<Rightarrow>
                 let result1 = (if total_wait_time \<ge> MAX_WAIT_ETHERNET_PHY_STATUS
                                then CY_RSLT_SUCCESS else result);
                     st2 = (if total_wait_time \<ge> MAX_WAIT_ETHERNET_PHY_STATUS
                            then False else st1)
                 in ((if cy_rtos_set_mutex_r e \<noteq> CY_RSLT_SUCCESS
                      then CY_RSLT_ECM_MUTEX_ERROR else result1),
                     Some st2, calls @ [Cy_rtos_set_mutex]))
      | _ \<Rightarrow> (CY_RSLT_MODULE_ECM_BADARG, status, []))"

text \<open>
  The loop of \<^verbatim>\<open>cy_ecm_get_link_speed\<close> with the assignment after it. \<open>k\<close> counts the
  calls to \<^verbatim>\<open>phy_get_linkstatus\<close> and \<open>j\<close> those to \<^verbatim>\<open>phy_get_linkspeed\<close>. The result is
  \<^verbatim>\<open>result\<close> at the label \<^verbatim>\<open>exit\<close>, the pair written to \<^verbatim>\<open>*duplex\<close> and \<^verbatim>\<open>*speed\<close> if they
  were written, and the calls made.
\<close>

function get_link_speed_wait ::
  "(nat \<Rightarrow> phy_get_linkstatus_t) \<Rightarrow> (nat \<Rightarrow> cy_rslt_t \<times> 32 word \<times> 32 word) \<Rightarrow> nat \<Rightarrow> nat \<Rightarrow> nat
     \<Rightarrow> 32 word \<Rightarrow> 32 word \<Rightarrow> call list
     \<Rightarrow> cy_rslt_t \<times> (32 word \<times> 32 word) option \<times> call list" where
  "get_link_speed_wait phy spd idx k j total_wait_time link_status calls =
     (if total_wait_time < MAX_WAIT_ETHERNET_PHY_STATUS then
        (case phy k idx link_status of (result, link_status') \<Rightarrow>
           if result = CY_RSLT_SUCCESS \<and> link_status' = 1 then
             (case spd j of (result', mode, phy_speed) \<Rightarrow>
                if result' = CY_RSLT_SUCCESS
                then (result', Some (mode, phy_speed),
                      calls @ [Phy_get_linkstatus idx, Phy_get_linkspeed idx])
                else get_link_speed_wait phy spd idx (Suc k) (Suc j)
                       (total_wait_time + WAIT_CHECK_ETHERNET_PHY_STATUS) link_status'
                       (calls @ [Phy_get_linkstatus idx, Phy_get_linkspeed idx,
                                 Cy_rtos_delay_milliseconds
                                   (unat WAIT_CHECK_ETHERNET_PHY_STATUS)]))
           else get_link_speed_wait phy spd idx (Suc k) j
                  (total_wait_time + WAIT_CHECK_ETHERNET_PHY_STATUS) link_status'
                  (calls @ [Phy_get_linkstatus idx,
                            Cy_rtos_delay_milliseconds (unat WAIT_CHECK_ETHERNET_PHY_STATUS)]))
      else (CY_RSLT_ECM_ERROR, None, calls))"
  by pat_completeness auto
termination
  by (relation "measure (\<lambda>(phy, spd, idx, k, j, t, ls, c).
                  unat MAX_WAIT_ETHERNET_PHY_STATUS - unat t)")
     (auto simp: MAX_WAIT_ETHERNET_PHY_STATUS_def WAIT_CHECK_ETHERNET_PHY_STATUS_def
                 word_less_nat_alt unat_word_ariths)

text \<open>
  \<^verbatim>\<open>cy_ecm_get_link_speed\<close>. \<open>duplex\<close> and \<open>speed\<close> are \<open>None\<close> for \<^verbatim>\<open>NULL\<close> pointers; the
  second and third components of the result are the caller's variables after the call.
\<close>

definition cy_ecm_get_link_speed ::
  "env \<Rightarrow> ecm_state \<Rightarrow> cy_ecm_object_t option \<Rightarrow> 32 word option \<Rightarrow> 32 word option
     \<Rightarrow> cy_rslt_t \<times> 32 word option \<times> 32 word option \<times> call list" where
  "cy_ecm_get_link_speed e g ecm_handle duplex speed =
     (case (ecm_handle, duplex, speed) of
        (Some obj, Some d, Some s) \<Rightarrow>
          if \<not> is_ecm_initialized g then (CY_RSLT_MODULE_ECM_NOT_INITIALIZED, duplex, speed, [])
          else if cy_rtos_get_mutex_r e \<noteq> CY_RSLT_SUCCESS
          then (CY_RSLT_ECM_MUTEX_ERROR, duplex, speed, [Cy_rtos_get_mutex])
          else
            (case get_link_speed_wait (phy_get_linkstatus_r e) (phy_get_linkspeed_r e)
                    (eth_idx obj) 0 0 0 0 [Cy_rtos_get_mutex] of
               (result, written, calls) \<Rightarrow>
                 ((if cy_rtos_set_mutex_r e \<noteq> CY_RSLT_SUCCESS
                   then CY_RSLT_ECM_MUTEX_ERROR else result),
                  (case written of None \<Rightarrow> duplex | Some (mode, phy_speed) \<Rightarrow> Some mode),
                  (case written of None \<Rightarrow> speed | Some (mode, phy_speed) \<Rightarrow> Some phy_speed),
                  calls @ [Cy_rtos_set_mutex]))
      | _ \<Rightarrow> (CY_RSLT_MODULE_ECM_BADARG, duplex, speed, []))"

text \<open>
  \<^verbatim>\<open>cy_ecm_get_ip_address\<close>. \<open>ip_addr\<close> is \<open>None\<close> for a \<^verbatim>\<open>NULL\<close> pointer and otherwise
  the content of the caller's structure; the second component of the result is that
  structure after the call.
\<close>

definition cy_ecm_get_ip_address ::
  "env \<Rightarrow> ecm_state \<Rightarrow> cy_ecm_object_t option \<Rightarrow> cy_ecm_ip_address_t option
     \<Rightarrow> cy_rslt_t \<times> cy_ecm_ip_address_t option \<times> call list" where
  "cy_ecm_get_ip_address e g ecm_handle ip_addr =
     (case (ecm_handle, ip_addr) of
        (Some obj, Some a) \<Rightarrow>
          if \<not> is_ecm_initialized g then (CY_RSLT_MODULE_ECM_NOT_INITIALIZED, ip_addr, [])
          else if cy_rtos_get_mutex_r e \<noteq> CY_RSLT_SUCCESS
          then (CY_RSLT_ECM_MUTEX_ERROR, ip_addr, [Cy_rtos_get_mutex])
          else
            (case (if network_up obj = False
                   then (CY_RSLT_MODULE_ECM_NOT_CONNECTED, zeroed_ip_address, [])
                   else (case cy_network_get_ip_address_r e 0 of (result, v4) \<Rightarrow>
                           if result \<noteq> CY_RSLT_SUCCESS
                           then (CY_RSLT_ECM_IP_ADDR_ERROR, a, [Cy_network_get_ip_address])
                           else (result, a\<lparr>version := CY_ECM_IP_VER_V4, ip := (ip a)[0 := v4]\<rparr>,
                                 [Cy_network_get_ip_address])))
             of (result, a1, calls) \<Rightarrow>
               ((if cy_rtos_set_mutex_r e \<noteq> CY_RSLT_SUCCESS
                 then CY_RSLT_ECM_MUTEX_ERROR else result),
                Some a1, [Cy_rtos_get_mutex] @ calls @ [Cy_rtos_set_mutex]))
      | _ \<Rightarrow> (CY_RSLT_MODULE_ECM_BADARG, ip_addr, []))"

section \<open>Concrete inputs\<close>

text \<open>The static variables as the C file initializes them.\<close>

definition state_at_start :: ecm_state where
  "state_at_start =
     \<lparr>is_ecm_initialized = False, is_tcp_initialized = False, ecm_event_thread = None,
      ecm_event_handler = [None, None, None], is_ethernet_initiated = [False, False],
      is_ethernet_link_up = [False, False], is_ecm_thread_created = 0,
      eth_index_internal = 0\<rparr>"

text \<open>The manager after a successful \<^verbatim>\<open>cy_ecm_init\<close>.\<close>

definition state_initialized :: ecm_state where
  "state_initialized = state_at_start\<lparr>is_ecm_initialized := True, is_tcp_initialized := True\<rparr>"

text \<open>Collaborators that all succeed: the link is up and an address is assigned at once.\<close>

definition env_all_ok :: env where
  "env_all_ok =
     \<lparr>cy_network_init_r = CY_RSLT_SUCCESS,
      cy_rtos_init_mutex2_ecm_mutex_r = CY_RSLT_SUCCESS,
      cy_rtos_get_mutex_r = CY_RSLT_SUCCESS,
      cy_rtos_set_mutex_r = CY_RSLT_SUCCESS,
      malloc_ok = True,
      cy_rtos_init_mutex2_obj_mutex_r = CY_RSLT_SUCCESS,
      cy_eth_driver_initialization_r = CY_RSLT_SUCCESS,
      cy_rtos_create_thread_r = (CY_RSLT_SUCCESS, Some 1),
      cy_network_add_nw_interface_r = (CY_RSLT_SUCCESS, Some 1),
      cy_network_ip_up_r = CY_RSLT_SUCCESS,
      cy_network_get_ip_address_r = (\<lambda>k. (CY_RSLT_SUCCESS, 0xC0A80102)),
      phy_get_linkstatus_r = (\<lambda>k idx linkstatus. (CY_RSLT_SUCCESS, 1)),
      phy_get_linkspeed_r = (\<lambda>j. (CY_RSLT_SUCCESS, 1, 100))\<rparr>"

text \<open>A PHY that answers every poll with success and link down.\<close>

definition phy_link_down :: "nat \<Rightarrow> phy_get_linkstatus_t" where
  "phy_link_down = (\<lambda>k idx linkstatus. (CY_RSLT_SUCCESS, 0))"

text \<open>A network stack that never has an address.\<close>

definition nw_no_address :: "nat \<Rightarrow> cy_rslt_t \<times> 32 word" where
  "nw_no_address = (\<lambda>k. (CY_RSLT_OTHER 1, 0))"

definition phy_callbacks_all :: cy_ecm_phy_callbacks_t where
  "phy_callbacks_all =
     \<lparr>phy_init = Some 1, phy_configure = Some 2, phy_reset = Some 3, phy_discover = Some 4,
      phy_enable_ext_reg = Some 5, phy_get_auto_neg_status = Some 6,
      phy_get_link_partner_cap = Some 7, phy_get_linkspeed = Some 8,
      phy_get_linkstatus = Some 9\<rparr>"

text \<open>A build with interface 0 only.\<close>

definition config_eth0 :: ecm_config where
  "config_eth0 =
     \<lparr>eth_0_ENABLED = True, eth_1_ENABLED = False,
      eth_0_MAC_ADDR = [0x00, 0x03, 0x19, 0x45, 0x00, 0x00], eth_1_MAC_ADDR = [],
      eth_0_PROMISCUOUS_MODE = False, eth_0_ACCEPT_BROADCASR_FRAMES = True,
      eth_1_PROMISCUOUS_MODE = False, eth_1_ACCEPT_BROADCASR_FRAMES = True,
      CY_IP_MXETH_INSTANCES = 1\<rparr>"

text \<open>The object of interface 0 as \<^verbatim>\<open>cy_ecm_ethif_init\<close> leaves it in that build.\<close>

definition object_eth0 :: cy_ecm_object_t where
  "object_eth0 =
     \<lparr>eth_idx = 0, eth_base_type = Some ETH0, iface_context = None,
      eth_phy_cb = phy_callbacks_all, user_data = None, isobjinitialized = True,
      network_up = False, mac_address = [0x00, 0x03, 0x19, 0x45, 0x00, 0x00]\<rparr>"

section \<open>Properties of the link monitor\<close>

lemma invoke_app_callbacks_slots:
  assumes "length handlers = CY_ECM_MAXIMUM_CALLBACKS_COUNT"
  shows "invoke_app_callbacks handlers ev = [App_callback cb ev. Some cb \<leftarrow> handlers]"
proof -
  from assms obtain a b c where h: "handlers = [a, b, c]"
    by (auto simp: CY_ECM_MAXIMUM_CALLBACKS_COUNT_def length_Suc_conv numeral_3_eq_3)
  have up: "[0 ..< 3] = [0, 1, 2]" by (simp add: upt_rec)
  show ?thesis
    by (simp add: h invoke_app_callbacks_def CY_ECM_MAXIMUM_CALLBACKS_COUNT_def up
             split: option.splits)
qed

lemma invoke_app_callbacks_no_phy:
  "Phy_get_linkstatus i \<notin> set (invoke_app_callbacks handlers ev)"
  by (auto simp: invoke_app_callbacks_def split: option.splits)

lemma invoke_app_callbacks_filter:
  "filter (\<lambda>c. case c of Phy_get_linkstatus i \<Rightarrow> True | _ \<Rightarrow> False)
     (invoke_app_callbacks handlers ev) = []"
  by (auto simp: invoke_app_callbacks_def filter_empty_conv split: option.splits)

lemma monitor_poll_calls:
  "\<exists>cbs. snd (snd (monitor_poll phy idx g ls)) = Phy_get_linkstatus idx # cbs \<and>
         (cbs = [] \<or> (\<exists>ev. cbs = invoke_app_callbacks (ecm_event_handler g) ev))"
  by (auto simp: monitor_poll_def split: prod.splits)

text \<open>
  C5. One iteration of the monitor loop, for the interface \<open>idx\<close> it evaluates
  (interface 0 if that is initiated, else interface 1 if that is initiated), where the
  PHY answers \<open>(result, linkstatus')\<close>. If the PHY reports link up (success and 1) and the
  cached flag is false, the flag becomes true and \<open>CY_ECM_EVENT_CONNECTED\<close> goes once to
  the callback of every occupied slot, in slot order. If it reports link down (success
  and not 1) and the flag is true, the flag becomes false and
  \<open>CY_ECM_EVENT_DISCONNECTED\<close> is delivered in the same way. If the poll fails or the
  status has not changed, the state is as before and no callback is called.
\<close>

theorem monitor_edge_events:
  assumes wf: "state_wf g"
    and ev: "(is_ethernet_initiated g ! CY_ECM_INTERFACE_ETH0 \<and> idx = CY_ECM_INTERFACE_ETH0) \<or>
             (\<not> is_ethernet_initiated g ! CY_ECM_INTERFACE_ETH0 \<and>
              is_ethernet_initiated g ! CY_ECM_INTERFACE_ETH1 \<and> idx = CY_ECM_INTERFACE_ETH1)"
    and phy: "phy idx linkstatus = (result, linkstatus')"
  shows "(result = CY_RSLT_SUCCESS \<and> linkstatus' = 1 \<and> \<not> is_ethernet_link_up g ! idx \<longrightarrow>
            ecm_event_thread_iteration phy g linkstatus =
              (g\<lparr>is_ethernet_link_up := (is_ethernet_link_up g)[idx := True]\<rparr>, linkstatus',
               Phy_get_linkstatus idx #
               [App_callback cb CY_ECM_EVENT_CONNECTED. Some cb \<leftarrow> ecm_event_handler g] @
               [Cy_rtos_delay_milliseconds CY_POLL_ETHERNET_PHY_STATUS_TIME]) \<and>
            (is_ethernet_link_up g)[idx := True] ! idx = True) \<and>
         (result = CY_RSLT_SUCCESS \<and> linkstatus' \<noteq> 1 \<and> is_ethernet_link_up g ! idx \<longrightarrow>
            ecm_event_thread_iteration phy g linkstatus =
              (g\<lparr>is_ethernet_link_up := (is_ethernet_link_up g)[idx := False]\<rparr>, linkstatus',
               Phy_get_linkstatus idx #
               [App_callback cb CY_ECM_EVENT_DISCONNECTED. Some cb \<leftarrow> ecm_event_handler g] @
               [Cy_rtos_delay_milliseconds CY_POLL_ETHERNET_PHY_STATUS_TIME]) \<and>
            (is_ethernet_link_up g)[idx := False] ! idx = False) \<and>
         (result \<noteq> CY_RSLT_SUCCESS \<or>
          (linkstatus' = 1 \<and> is_ethernet_link_up g ! idx) \<or>
          (linkstatus' \<noteq> 1 \<and> \<not> is_ethernet_link_up g ! idx) \<longrightarrow>
            ecm_event_thread_iteration phy g linkstatus =
              (g, linkstatus',
               [Phy_get_linkstatus idx,
                Cy_rtos_delay_milliseconds CY_POLL_ETHERNET_PHY_STATUS_TIME]))"
proof -
  have len: "length (ecm_event_handler g) = CY_ECM_MAXIMUM_CALLBACKS_COUNT"
    and idx: "idx < length (is_ethernet_link_up g)"
    using wf ev
    by (auto simp: state_wf_def CY_ECM_ETH_INTERFACE_MAX_def CY_ECM_INTERFACE_ETH0_def
                   CY_ECM_INTERFACE_ETH1_def)
  have it: "ecm_event_thread_iteration phy g linkstatus =
              (case monitor_poll phy idx g linkstatus of (g', linkstatus', calls) \<Rightarrow>
                 (g', linkstatus',
                  calls @ [Cy_rtos_delay_milliseconds CY_POLL_ETHERNET_PHY_STATUS_TIME]))"
    using ev by (auto simp: ecm_event_thread_iteration_def)
  show ?thesis
    using idx
    by (simp add: it monitor_poll_def phy invoke_app_callbacks_slots [OF len])
qed

theorem monitor_edge_events_witness:
  "ecm_event_thread_iteration (\<lambda>i ls. (CY_RSLT_SUCCESS, 1))
     (state_at_start\<lparr>is_ethernet_initiated := [True, False],
                     ecm_event_handler := [Some 7, None, Some 9]\<rparr>) 0 =
     (state_at_start\<lparr>is_ethernet_initiated := [True, False],
                     ecm_event_handler := [Some 7, None, Some 9],
                     is_ethernet_link_up := [True, False]\<rparr>, 1,
      [Phy_get_linkstatus 0, App_callback 7 CY_ECM_EVENT_CONNECTED,
       App_callback 9 CY_ECM_EVENT_CONNECTED, Cy_rtos_delay_milliseconds 1000]) \<and>
   ecm_event_thread_iteration (\<lambda>i ls. (CY_RSLT_SUCCESS, 0))
     (state_at_start\<lparr>is_ethernet_initiated := [False, True],
                     is_ethernet_link_up := [False, True],
                     ecm_event_handler := [None, Some 5, None]\<rparr>) 1 =
     (state_at_start\<lparr>is_ethernet_initiated := [False, True],
                     is_ethernet_link_up := [False, False],
                     ecm_event_handler := [None, Some 5, None]\<rparr>, 0,
      [Phy_get_linkstatus 1, App_callback 5 CY_ECM_EVENT_DISCONNECTED,
       Cy_rtos_delay_milliseconds 1000]) \<and>
   ecm_event_thread_iteration (\<lambda>i ls. (CY_RSLT_OTHER 1, ls))
     (state_at_start\<lparr>is_ethernet_initiated := [True, False],
                     is_ethernet_link_up := [True, False],
                     ecm_event_handler := [Some 7, None, None]\<rparr>) 0 =
     (state_at_start\<lparr>is_ethernet_initiated := [True, False],
                     is_ethernet_link_up := [True, False],
                     ecm_event_handler := [Some 7, None, None]\<rparr>, 0,
      [Phy_get_linkstatus 0, Cy_rtos_delay_milliseconds 1000])"
proof -
  let ?g1 = "state_at_start\<lparr>is_ethernet_initiated := [True, False],
                            ecm_event_handler := [Some 7, None, Some 9]\<rparr>"
  let ?g2 = "state_at_start\<lparr>is_ethernet_initiated := [False, True],
                            is_ethernet_link_up := [False, True],
                            ecm_event_handler := [None, Some 5, None]\<rparr>"
  let ?g3 = "state_at_start\<lparr>is_ethernet_initiated := [True, False],
                            is_ethernet_link_up := [True, False],
                            ecm_event_handler := [Some 7, None, None]\<rparr>"
  have wf: "state_wf ?g1" "state_wf ?g2" "state_wf ?g3"
    by (simp_all add: state_wf_def state_at_start_def CY_ECM_MAXIMUM_CALLBACKS_COUNT_def
                      CY_ECM_ETH_INTERFACE_MAX_def)
  have e1: "(is_ethernet_initiated ?g1 ! CY_ECM_INTERFACE_ETH0 \<and> 0 = CY_ECM_INTERFACE_ETH0) \<or>
            (\<not> is_ethernet_initiated ?g1 ! CY_ECM_INTERFACE_ETH0 \<and>
             is_ethernet_initiated ?g1 ! CY_ECM_INTERFACE_ETH1 \<and> 0 = CY_ECM_INTERFACE_ETH1)"
    by (simp add: CY_ECM_INTERFACE_ETH0_def)
  have e2: "(is_ethernet_initiated ?g2 ! CY_ECM_INTERFACE_ETH0 \<and> 1 = CY_ECM_INTERFACE_ETH0) \<or>
            (\<not> is_ethernet_initiated ?g2 ! CY_ECM_INTERFACE_ETH0 \<and>
             is_ethernet_initiated ?g2 ! CY_ECM_INTERFACE_ETH1 \<and> 1 = CY_ECM_INTERFACE_ETH1)"
    by (simp add: CY_ECM_INTERFACE_ETH0_def CY_ECM_INTERFACE_ETH1_def)
  have e3: "(is_ethernet_initiated ?g3 ! CY_ECM_INTERFACE_ETH0 \<and> 0 = CY_ECM_INTERFACE_ETH0) \<or>
            (\<not> is_ethernet_initiated ?g3 ! CY_ECM_INTERFACE_ETH0 \<and>
             is_ethernet_initiated ?g3 ! CY_ECM_INTERFACE_ETH1 \<and> 0 = CY_ECM_INTERFACE_ETH1)"
    by (simp add: CY_ECM_INTERFACE_ETH0_def)
  show ?thesis
    using monitor_edge_events
            [where g = ?g1 and idx = 0 and phy = "\<lambda>i ls. (CY_RSLT_SUCCESS, 1)"
               and linkstatus = 0 and result = CY_RSLT_SUCCESS and linkstatus' = 1,
             OF wf(1) e1]
          monitor_edge_events
            [where g = ?g2 and idx = 1 and phy = "\<lambda>i ls. (CY_RSLT_SUCCESS, 0)"
               and linkstatus = 1 and result = CY_RSLT_SUCCESS and linkstatus' = 0,
             OF wf(2) e2]
          monitor_edge_events
            [where g = ?g3 and idx = 0 and phy = "\<lambda>i ls. (CY_RSLT_OTHER 1, ls)"
               and linkstatus = 0 and result = "CY_RSLT_OTHER 1" and linkstatus' = 0,
             OF wf(3) e3]
    by (simp add: state_at_start_def CY_POLL_ETHERNET_PHY_STATUS_TIME_def)
qed

text \<open>
  C6. In one iteration of the monitor loop the link status of at most one interface
  is queried, and if interface 0 is initiated, interface 1 is not queried, whatever its
  own flag says.
\<close>

theorem monitor_queries_one_interface:
  "length (filter (\<lambda>c. case c of Phy_get_linkstatus i \<Rightarrow> True | _ \<Rightarrow> False)
             (snd (snd (ecm_event_thread_iteration phy g linkstatus)))) \<le> 1 \<and>
   (is_ethernet_initiated g ! CY_ECM_INTERFACE_ETH0 \<longrightarrow>
      Phy_get_linkstatus CY_ECM_INTERFACE_ETH1
        \<notin> set (snd (snd (ecm_event_thread_iteration phy g linkstatus))))"
proof -
  let ?q = "\<lambda>c. case c of Phy_get_linkstatus i \<Rightarrow> True | _ \<Rightarrow> False"
  have one: "length (filter ?q (snd (snd (monitor_poll phy idx g linkstatus)))) = 1" for idx
    using monitor_poll_calls [of phy idx g linkstatus]
    by (auto simp: invoke_app_callbacks_filter)
  have other: "Phy_get_linkstatus CY_ECM_INTERFACE_ETH1
                 \<notin> set (snd (snd (monitor_poll phy CY_ECM_INTERFACE_ETH0 g linkstatus)))"
    using monitor_poll_calls [of phy CY_ECM_INTERFACE_ETH0 g linkstatus]
    by (auto simp: invoke_app_callbacks_no_phy CY_ECM_INTERFACE_ETH0_def CY_ECM_INTERFACE_ETH1_def)
  show ?thesis
    using one [of CY_ECM_INTERFACE_ETH0] one [of CY_ECM_INTERFACE_ETH1] other
    by (simp add: ecm_event_thread_iteration_def case_prod_beta)
qed

theorem monitor_queries_one_interface_witness:
  "is_ethernet_initiated (state_at_start\<lparr>is_ethernet_initiated := [True, True]\<rparr>)
     ! CY_ECM_INTERFACE_ETH0 \<and>
   Phy_get_linkstatus CY_ECM_INTERFACE_ETH1
     \<notin> set (snd (snd (ecm_event_thread_iteration (\<lambda>i ls. (CY_RSLT_SUCCESS, 1))
                         (state_at_start\<lparr>is_ethernet_initiated := [True, True]\<rparr>) 0)))"
proof -
  have h: "is_ethernet_initiated (state_at_start\<lparr>is_ethernet_initiated := [True, True]\<rparr>)
             ! CY_ECM_INTERFACE_ETH0"
    by (simp add: CY_ECM_INTERFACE_ETH0_def)
  show ?thesis
    using h monitor_queries_one_interface
              [of "\<lambda>i ls. (CY_RSLT_SUCCESS, 1)"
                  "state_at_start\<lparr>is_ethernet_initiated := [True, True]\<rparr>" 0]
    by blast
qed

section \<open>Properties of the initialization\<close>

text \<open>
  C9. \<^verbatim>\<open>cy_ecm_init\<close> on an active manager returns \<open>CY_RSLT_ECM_INIT_ERROR\<close>, changes
  nothing and calls no collaborator. On an inactive manager whose network stack is up
  or comes up, a failing creation of the global mutex gives \<open>CY_RSLT_ECM_MUTEX_ERROR\<close>:
  the network stack is deinitialized after the failed creation, and the manager and
  the network-stack flag are both off afterwards. If the mutex is created, the call
  succeeds and the manager is active.
\<close>

theorem init_already_initialized_and_lock_rollback:
  "(is_ecm_initialized g \<longrightarrow> cy_ecm_init e g = (CY_RSLT_ECM_INIT_ERROR, g, [])) \<and>
   (\<not> is_ecm_initialized g \<and>
    (is_tcp_initialized g \<or> cy_network_init_r e = CY_RSLT_SUCCESS) \<and>
    cy_rtos_init_mutex2_ecm_mutex_r e \<noteq> CY_RSLT_SUCCESS \<longrightarrow>
      cy_ecm_init e g =
        (CY_RSLT_ECM_MUTEX_ERROR, g\<lparr>is_tcp_initialized := False\<rparr>,
         (if is_tcp_initialized g then [] else [Cy_network_init]) @
           [Cy_rtos_init_mutex2_ecm_mutex, Cy_network_deinit]) \<and>
      \<not> is_ecm_initialized (fst (snd (cy_ecm_init e g))) \<and>
      \<not> is_tcp_initialized (fst (snd (cy_ecm_init e g)))) \<and>
   (\<not> is_ecm_initialized g \<and>
    (is_tcp_initialized g \<or> cy_network_init_r e = CY_RSLT_SUCCESS) \<and>
    cy_rtos_init_mutex2_ecm_mutex_r e = CY_RSLT_SUCCESS \<longrightarrow>
      cy_ecm_init e g =
        (CY_RSLT_SUCCESS, g\<lparr>is_tcp_initialized := True, is_ecm_initialized := True\<rparr>,
         (if is_tcp_initialized g then [] else [Cy_network_init]) @
           [Cy_rtos_init_mutex2_ecm_mutex]))"
proof (cases "is_ecm_initialized g")
  case True
  then show ?thesis by (simp add: cy_ecm_init_def)
next
  case False
  show ?thesis
  proof (cases "cy_rtos_init_mutex2_ecm_mutex_r e = CY_RSLT_SUCCESS")
    case True
    with False show ?thesis by (auto simp: cy_ecm_init_def Let_def)
  next
    case mutex_fails: False
    with False show ?thesis by (auto simp: cy_ecm_init_def Let_def)
  qed
qed

theorem init_already_initialized_and_lock_rollback_witness:
  "cy_ecm_init env_all_ok state_initialized = (CY_RSLT_ECM_INIT_ERROR, state_initialized, []) \<and>
   cy_ecm_init (env_all_ok\<lparr>cy_rtos_init_mutex2_ecm_mutex_r := CY_RSLT_OTHER 1\<rparr>) state_at_start =
     (CY_RSLT_ECM_MUTEX_ERROR, state_at_start,
      [Cy_network_init, Cy_rtos_init_mutex2_ecm_mutex, Cy_network_deinit]) \<and>
   cy_ecm_init env_all_ok state_at_start =
     (CY_RSLT_SUCCESS, state_initialized, [Cy_network_init, Cy_rtos_init_mutex2_ecm_mutex])"
  using init_already_initialized_and_lock_rollback [of state_initialized env_all_ok]
        init_already_initialized_and_lock_rollback
          [of state_at_start "env_all_ok\<lparr>cy_rtos_init_mutex2_ecm_mutex_r := CY_RSLT_OTHER 1\<rparr>"]
        init_already_initialized_and_lock_rollback [of state_at_start env_all_ok]
  by (simp add: state_initialized_def state_at_start_def env_all_ok_def)

section \<open>Properties of the interface handles\<close>

text \<open>
  An error return of \<^verbatim>\<open>cy_ecm_ethif_init\<close> that did not try to create the monitor thread
  leaves the array \<open>is_ethernet_initiated\<close> as it was, when the global mutex is released.
\<close>

lemma ethif_init_error_without_thread_keeps_flags:
  assumes "cy_ecm_ethif_init cfg e g idx phy_callbacks ecm_handle = (r, g', h', calls)"
    and "r \<noteq> CY_RSLT_SUCCESS"
    and "cy_rtos_set_mutex_r e = CY_RSLT_SUCCESS"
    and "Cy_rtos_create_thread \<notin> set calls"
  shows "is_ethernet_initiated g' = is_ethernet_initiated g"
  using assms
  by (auto simp: cy_ecm_ethif_init_def ethif_init_exit_def Let_def
           split: if_splits option.splits)

text \<open>
  C2. The manager is initialized, interface 0 is enabled and not initiated, the PHY
  table is complete, allocation, the object mutex and the hardware initialization
  succeed, and \<^verbatim>\<open>cy_rtos_create_thread\<close> fails. The call returns \<open>CY_RSLT_ECM_ERROR\<close>; the
  object mutex is destroyed and the object is freed; \<open>is_ethernet_initiated[0]\<close>, set
  before the thread is created, is still true. A later call for interface 0 is
  rejected with \<open>CY_RSLT_ECM_INIT_ERROR\<close>.
\<close>

theorem ethif_init_thread_failure_leaves_interface_initiated:
  "cy_ecm_ethif_init config_eth0
     (env_all_ok\<lparr>cy_rtos_create_thread_r := (CY_RSLT_OTHER 1, None)\<rparr>)
     state_initialized CY_ECM_INTERFACE_ETH0 (Some phy_callbacks_all) (Some Null_handle) =
     (CY_RSLT_ECM_ERROR,
      state_initialized\<lparr>is_ethernet_initiated := [True, False]\<rparr>,
      Some Freed_handle,
      [Cy_rtos_get_mutex, Malloc_ecm_obj, Cy_rtos_init_mutex2_obj_mutex,
       Cyhal_syspm_lock_deepsleep, Cy_eth_driver_initialization 0,
       Cyhal_syspm_unlock_deepsleep, Cy_rtos_create_thread,
       Cy_rtos_deinit_mutex_obj_mutex, Free_ecm_obj, Cy_rtos_set_mutex]) \<and>
   cy_ecm_ethif_init config_eth0 env_all_ok
     (state_initialized\<lparr>is_ethernet_initiated := [True, False]\<rparr>)
     CY_ECM_INTERFACE_ETH0 (Some phy_callbacks_all) (Some Null_handle) =
     (CY_RSLT_ECM_INIT_ERROR,
      state_initialized\<lparr>is_ethernet_initiated := [True, False]\<rparr>,
      Some Null_handle, [Cy_rtos_get_mutex, Cy_rtos_set_mutex])"
  by (simp add: cy_ecm_ethif_init_def ethif_init_exit_def config_eth0_def env_all_ok_def
        state_initialized_def state_at_start_def phy_callbacks_all_def zeroed_object_def
        ETH_INTERFACE_TYPE_def CY_ECM_INTERFACE_ETH0_def CY_ECM_INTERFACE_ETH1_def
        CY_ECM_INTERFACE_INVALID_def Let_def)

section \<open>Properties of connect\<close>

declare connect_link_wait.simps [simp del]
declare get_link_status_wait.simps [simp del]
declare get_link_speed_wait.simps [simp del]
declare register_scan.simps [simp del]
declare deregister_scan.simps [simp del]

text \<open>
  C4. On a handle with \<open>network_up\<close> set, \<^verbatim>\<open>cy_ecm_connect\<close> returns, leaves the state,
  the object and the caller's address structure as they were, and calls nothing but
  the acquisition and release of the global mutex: no interface is attached, no
  IP-change callback is registered, the IP layer is not brought up. With an active
  manager, an initialized object and a working mutex the result is
  \<open>CY_RSLT_MODULE_ECM_ALREADY_CONNECTED\<close>.
\<close>

theorem connect_already_connected:
  assumes "network_up obj = True"
  shows "\<exists>r calls.
           cy_ecm_connect e g (Some obj) ecm_static_ip_addr ip_addr =
             Some \<lparr>cr_result = r, cr_state = g, cr_object = Some obj, cr_ip_addr = ip_addr,
                   cr_calls = calls\<rparr> \<and>
           set calls \<subseteq> {Cy_rtos_get_mutex, Cy_rtos_set_mutex} \<and>
           (is_ecm_initialized g \<and> isobjinitialized obj \<and>
            cy_rtos_get_mutex_r e = CY_RSLT_SUCCESS \<and> cy_rtos_set_mutex_r e = CY_RSLT_SUCCESS
              \<longrightarrow> r = CY_RSLT_MODULE_ECM_ALREADY_CONNECTED)"
  using assms
  by (auto simp: cy_ecm_connect_def connect_exit_def)

theorem connect_already_connected_witness:
  "network_up (object_eth0\<lparr>network_up := True\<rparr>) = True \<and>
   (\<exists>calls.
      cy_ecm_connect env_all_ok state_initialized (Some (object_eth0\<lparr>network_up := True\<rparr>))
        None None =
        Some \<lparr>cr_result = CY_RSLT_MODULE_ECM_ALREADY_CONNECTED, cr_state = state_initialized,
              cr_object = Some (object_eth0\<lparr>network_up := True\<rparr>), cr_ip_addr = None,
              cr_calls = calls\<rparr> \<and>
      set calls \<subseteq> {Cy_rtos_get_mutex, Cy_rtos_set_mutex})"
proof -
  have h: "network_up (object_eth0\<lparr>network_up := True\<rparr>) = True" by simp
  have i: "is_ecm_initialized state_initialized \<and>
           isobjinitialized (object_eth0\<lparr>network_up := True\<rparr>) \<and>
           cy_rtos_get_mutex_r env_all_ok = CY_RSLT_SUCCESS \<and>
           cy_rtos_set_mutex_r env_all_ok = CY_RSLT_SUCCESS"
    by (simp add: state_initialized_def object_eth0_def env_all_ok_def)
  show ?thesis
    using h i connect_already_connected [OF h, of env_all_ok state_initialized None None]
    by auto
qed

text \<open>The loops that wait for the link, when the PHY never reports link up.\<close>

lemma wait_time_less:
  "unat (t :: 32 word) = 100 * m \<Longrightarrow> (t < MAX_WAIT_ETHERNET_PHY_STATUS) = (m < 100)"
  by (simp add: MAX_WAIT_ETHERNET_PHY_STATUS_def word_less_nat_alt)

lemma wait_time_step:
  "unat (t :: 32 word) = 100 * m \<Longrightarrow> m < 100 \<Longrightarrow>
   unat (t + WAIT_CHECK_ETHERNET_PHY_STATUS) = 100 * Suc m"
  by (simp add: WAIT_CHECK_ETHERNET_PHY_STATUS_def unat_word_ariths)

lemma wait_time_end:
  "unat (t :: 32 word) = 100 * m \<Longrightarrow> m = 100 \<Longrightarrow> t = MAX_WAIT_ETHERNET_PHY_STATUS"
  by (simp add: MAX_WAIT_ETHERNET_PHY_STATUS_def word_unat_eq_iff)

lemma polls_step:
  "m < 100 \<Longrightarrow>
   (calls @ [p, d]) @ concat (replicate (100 - Suc m) [p, d]) =
   calls @ concat (replicate (100 - m) [p, d])"
proof -
  assume "m < 100"
  then have "100 - m = Suc (100 - Suc m)" by simp
  then show ?thesis by simp
qed

lemma get_link_status_wait_timeout:
  assumes never: "\<forall>k ls. phy k idx ls \<noteq> (CY_RSLT_SUCCESS, 1)"
  shows "m \<le> 100 \<Longrightarrow> unat t = 100 * m \<Longrightarrow>
         \<exists>r. get_link_status_wait phy idx k t ls res st calls =
               (r, MAX_WAIT_ETHERNET_PHY_STATUS, st,
                calls @ concat (replicate (100 - m)
                  [Phy_get_linkstatus idx, Cy_rtos_delay_milliseconds 100]))"
proof (induction "100 - m" arbitrary: m k t ls res calls)
  case 0
  then have m: "m = 100" by simp
  with "0.prems" have t: "t = MAX_WAIT_ETHERNET_PHY_STATUS" by (simp add: wait_time_end)
  show ?case
    by (subst get_link_status_wait.simps) (simp add: m t)
next
  case (Suc n)
  then have lt: "m < 100" and n: "n = 100 - Suc m" and le: "Suc m \<le> 100" by simp_all
  have tlt: "t < MAX_WAIT_ETHERNET_PHY_STATUS"
    using wait_time_less [OF Suc.prems(2)] lt by simp
  obtain r' ls' where p: "phy k idx ls = (r', ls')" by (cases "phy k idx ls")
  with never have np: "\<not> (r' = CY_RSLT_SUCCESS \<and> ls' = 1)" by metis
  have d: "unat WAIT_CHECK_ETHERNET_PHY_STATUS = 100"
    by (simp add: WAIT_CHECK_ETHERNET_PHY_STATUS_def)
  from Suc.hyps(1) [OF n le wait_time_step [OF Suc.prems(2) lt], of "Suc k" ls' r'
        "calls @ [Phy_get_linkstatus idx, Cy_rtos_delay_milliseconds 100]"]
  obtain r where "get_link_status_wait phy idx (Suc k) (t + WAIT_CHECK_ETHERNET_PHY_STATUS) ls' r' st
             (calls @ [Phy_get_linkstatus idx, Cy_rtos_delay_milliseconds 100]) =
           (r, MAX_WAIT_ETHERNET_PHY_STATUS, st,
            calls @ concat (replicate (100 - m)
                  [Phy_get_linkstatus idx, Cy_rtos_delay_milliseconds 100]))"
    unfolding polls_step [OF lt] by blast
  then show ?case
    using np
    by (subst get_link_status_wait.simps) (auto simp add: tlt p d)
qed


lemma connect_link_wait_timeout:
  assumes never: "\<forall>k ls. phy k idx ls \<noteq> (CY_RSLT_SUCCESS, 1)"
  shows "m \<le> 100 \<Longrightarrow> unat t = 100 * m \<Longrightarrow>
         \<exists>r ls'. connect_link_wait phy idx k t ls res calls =
               (r, MAX_WAIT_ETHERNET_PHY_STATUS, ls',
                calls @ concat (replicate (100 - m)
                  [Phy_get_linkstatus idx, Cy_rtos_delay_milliseconds 100]))"
proof (induction "100 - m" arbitrary: m k t ls res calls)
  case 0
  then have m: "m = 100" by simp
  with "0.prems" have t: "t = MAX_WAIT_ETHERNET_PHY_STATUS" by (simp add: wait_time_end)
  show ?case
    by (subst connect_link_wait.simps) (simp add: m t)
next
  case (Suc n)
  then have lt: "m < 100" and n: "n = 100 - Suc m" and le: "Suc m \<le> 100" by simp_all
  have tlt: "t < MAX_WAIT_ETHERNET_PHY_STATUS"
    using wait_time_less [OF Suc.prems(2)] lt by simp
  obtain r' ls' where p: "phy k idx ls = (r', ls')" by (cases "phy k idx ls")
  with never have np: "\<not> (r' = CY_RSLT_SUCCESS \<and> ls' = 1)" by metis
  have d: "unat WAIT_CHECK_ETHERNET_PHY_STATUS = 100"
    by (simp add: WAIT_CHECK_ETHERNET_PHY_STATUS_def)
  from Suc.hyps(1) [OF n le wait_time_step [OF Suc.prems(2) lt], of "Suc k" ls' r'
        "calls @ [Phy_get_linkstatus idx, Cy_rtos_delay_milliseconds 100]"]
  obtain r ls'' where "connect_link_wait phy idx (Suc k) (t + WAIT_CHECK_ETHERNET_PHY_STATUS) ls' r'
             (calls @ [Phy_get_linkstatus idx, Cy_rtos_delay_milliseconds 100]) =
           (r, MAX_WAIT_ETHERNET_PHY_STATUS, ls'',
            calls @ concat (replicate (100 - m)
                  [Phy_get_linkstatus idx, Cy_rtos_delay_milliseconds 100]))"
    unfolding polls_step [OF lt] by blast
  then show ?case
    using np
    by (subst connect_link_wait.simps) (auto simp add: tlt p d)
qed

lemma get_link_speed_wait_timeout:
  assumes never: "\<forall>k ls. phy k idx ls \<noteq> (CY_RSLT_SUCCESS, 1)"
  shows "m \<le> 100 \<Longrightarrow> unat t = 100 * m \<Longrightarrow>
         get_link_speed_wait phy spd idx k j t ls calls =
           (CY_RSLT_ECM_ERROR, None,
            calls @ concat (replicate (100 - m)
              [Phy_get_linkstatus idx, Cy_rtos_delay_milliseconds 100]))"
proof (induction "100 - m" arbitrary: m k t ls calls)
  case 0
  then have m: "m = 100" by simp
  with "0.prems" have t: "t = MAX_WAIT_ETHERNET_PHY_STATUS" by (simp add: wait_time_end)
  show ?case
    by (subst get_link_speed_wait.simps) (simp add: m t)
next
  case (Suc n)
  then have lt: "m < 100" and n: "n = 100 - Suc m" and le: "Suc m \<le> 100" by simp_all
  have tlt: "t < MAX_WAIT_ETHERNET_PHY_STATUS"
    using wait_time_less [OF Suc.prems(2)] lt by simp
  obtain r' ls' where p: "phy k idx ls = (r', ls')" by (cases "phy k idx ls")
  with never have np: "\<not> (r' = CY_RSLT_SUCCESS \<and> ls' = 1)" by metis
  have d: "unat WAIT_CHECK_ETHERNET_PHY_STATUS = 100"
    by (simp add: WAIT_CHECK_ETHERNET_PHY_STATUS_def)
  have "get_link_speed_wait phy spd idx (Suc k) j (t + WAIT_CHECK_ETHERNET_PHY_STATUS) ls'
             (calls @ [Phy_get_linkstatus idx, Cy_rtos_delay_milliseconds 100]) =
           (CY_RSLT_ECM_ERROR, None,
            calls @ concat (replicate (100 - m)
                  [Phy_get_linkstatus idx, Cy_rtos_delay_milliseconds 100]))"
    using Suc.hyps(1) [OF n le wait_time_step [OF Suc.prems(2) lt], of "Suc k" ls'
        "calls @ [Phy_get_linkstatus idx, Cy_rtos_delay_milliseconds 100]"]
    unfolding polls_step [OF lt] .
  then show ?case
    using np
    by (subst get_link_speed_wait.simps) (auto simp add: tlt p d)
qed

text \<open>
  C3. The manager is active, the object is initialized and not connected, the static
  address (if any) is IPv4, the network stack accepts the interface, the cached link
  flag of the interface is false and no poll of the PHY returns success with status 1.
  Then \<^verbatim>\<open>cy_ecm_connect\<close> polls the PHY 100 times, 100 ms apart, and returns
  \<open>CY_RSLT_ECM_ERROR\<close>. The static variables are all as before, so
  \<open>is_ethernet_initiated\<close> is. The interface was attached and the IP-change callback
  registered, and neither is undone: the interface is not removed and the object
  keeps the interface context.
\<close>

theorem connect_link_timeout:
  assumes init: "is_ecm_initialized g" "isobjinitialized obj" "network_up obj = False"
    and locks: "cy_rtos_get_mutex_r e = CY_RSLT_SUCCESS" "cy_rtos_set_mutex_r e = CY_RSLT_SUCCESS"
    and static: "case ecm_static_ip_addr of None \<Rightarrow> True
                 | Some s \<Rightarrow> version (gateway s) = CY_ECM_IP_VER_V4"
    and attach: "fst (cy_network_add_nw_interface_r e) = CY_RSLT_SUCCESS"
    and down: "is_ethernet_link_up g ! eth_idx obj = False"
    and never: "\<forall>k ls. phy_get_linkstatus_r e k (eth_idx obj) ls \<noteq> (CY_RSLT_SUCCESS, 1)"
  shows "cy_ecm_connect e g (Some obj) ecm_static_ip_addr ip_addr =
           Some \<lparr>cr_result = CY_RSLT_ECM_ERROR,
                 cr_state = g,
                 cr_object = Some (obj\<lparr>iface_context := snd (cy_network_add_nw_interface_r e)\<rparr>),
                 cr_ip_addr = ip_addr,
                 cr_calls =
                   [Cy_rtos_get_mutex, Cy_network_add_nw_interface (eth_idx obj),
                    Cy_network_register_ip_change_cb] @
                   concat (replicate 100 [Phy_get_linkstatus (eth_idx obj),
                                          Cy_rtos_delay_milliseconds 100]) @
                   [Cy_rtos_set_mutex]\<rparr>"
proof -
  obtain r ls' where w:
    "connect_link_wait (phy_get_linkstatus_r e) (eth_idx obj) 0 0 0 CY_RSLT_SUCCESS
       ([Cy_rtos_get_mutex, Cy_network_add_nw_interface (eth_idx obj)] @
        [Cy_network_register_ip_change_cb]) =
     (r, MAX_WAIT_ETHERNET_PHY_STATUS, ls',
      ([Cy_rtos_get_mutex, Cy_network_add_nw_interface (eth_idx obj)] @
        [Cy_network_register_ip_change_cb]) @ concat (replicate (100 - 0)
        [Phy_get_linkstatus (eth_idx obj), Cy_rtos_delay_milliseconds 100]))"
    using connect_link_wait_timeout
            [where phy = "phy_get_linkstatus_r e" and idx = "eth_idx obj" and m = 0 and t = 0
               and k = 0 and ls = 0 and res = CY_RSLT_SUCCESS
               and calls = "[Cy_rtos_get_mutex, Cy_network_add_nw_interface (eth_idx obj)] @
                            [Cy_network_register_ip_change_cb]", OF never]
    by auto
  have s: "\<not> (case ecm_static_ip_addr of None \<Rightarrow> False
              | Some s \<Rightarrow> version (gateway s) \<noteq> CY_ECM_IP_VER_V4)"
    using static by (simp split: option.splits)
  show ?thesis
    using init locks attach down s w
    by (simp add: cy_ecm_connect_def Let_def connect_exit_def)
qed

theorem connect_link_timeout_witness:
  "cy_ecm_connect (env_all_ok\<lparr>phy_get_linkstatus_r := phy_link_down\<rparr>)
     (state_initialized\<lparr>is_ethernet_initiated := [True, False]\<rparr>)
     (Some object_eth0) None None =
     Some \<lparr>cr_result = CY_RSLT_ECM_ERROR,
           cr_state = state_initialized\<lparr>is_ethernet_initiated := [True, False]\<rparr>,
           cr_object = Some (object_eth0\<lparr>iface_context := Some 1\<rparr>),
           cr_ip_addr = None,
           cr_calls =
             [Cy_rtos_get_mutex, Cy_network_add_nw_interface 0,
              Cy_network_register_ip_change_cb] @
             concat (replicate 100 [Phy_get_linkstatus 0, Cy_rtos_delay_milliseconds 100]) @
             [Cy_rtos_set_mutex]\<rparr>"
  using connect_link_timeout
          [of "state_initialized\<lparr>is_ethernet_initiated := [True, False]\<rparr>" object_eth0
              "env_all_ok\<lparr>phy_get_linkstatus_r := phy_link_down\<rparr>" None None]
  by (simp add: state_initialized_def state_at_start_def object_eth0_def env_all_ok_def
                phy_link_down_def)

text \<open>
  The address wait returns only if the network stack returns an address at some poll.
\<close>

lemma connect_dhcp_wait_needs_address:
  "connect_dhcp_wait nw k t c = Some y \<Longrightarrow> \<exists>j. fst (nw j) = CY_RSLT_SUCCESS"
proof (rule connect_dhcp_wait.raw_induct
         [where P = "\<lambda>nw k t c y. \<exists>j. fst (nw j) = CY_RSLT_SUCCESS"])
  fix f :: "(nat \<Rightarrow> cy_rslt_t \<times> 32 word) \<Rightarrow> nat \<Rightarrow> 32 word \<Rightarrow> call list
              \<Rightarrow> (cy_rslt_t \<times> 32 word \<times> 32 word \<times> call list) option"
    and nw k t c y
  assume ih: "\<And>nw k t c y. f nw k t c = Some y \<Longrightarrow> \<exists>j. fst (nw j) = CY_RSLT_SUCCESS"
    and st: "(case nw k of
        (result, v4) \<Rightarrow>
          if result = CY_RSLT_SUCCESS
          then Some (result, v4, t, c @ [Cy_network_get_ip_address])
          else f nw (Suc k) (t + RETRY_WAIT_TIME_GET_IP_ADDR)
                (c @ [Cy_network_get_ip_address,
                  Cy_rtos_delay_milliseconds (unat RETRY_WAIT_TIME_GET_IP_ADDR)])) = Some y"
  show "\<exists>j. fst (nw j) = CY_RSLT_SUCCESS"
  proof (cases "fst (nw k) = CY_RSLT_SUCCESS")
    case True
    then show ?thesis by blast
  next
    case False
    with st have "f nw (Suc k) (t + RETRY_WAIT_TIME_GET_IP_ADDR)
                (c @ [Cy_network_get_ip_address,
                  Cy_rtos_delay_milliseconds (unat RETRY_WAIT_TIME_GET_IP_ADDR)]) = Some y"
      by (simp split: prod.splits)
    then show ?thesis by (rule ih)
  qed
qed

lemma connect_dhcp_wait_no_address:
  "\<forall>k. fst (nw k) \<noteq> CY_RSLT_SUCCESS \<Longrightarrow> connect_dhcp_wait nw k t c = None"
  using connect_dhcp_wait_needs_address by (cases "connect_dhcp_wait nw k t c") blast+

lemma connect_ip_up_no_address:
  "cy_network_ip_up_r e = CY_RSLT_SUCCESS \<Longrightarrow>
   \<forall>k. fst (cy_network_get_ip_address_r e k) \<noteq> CY_RSLT_SUCCESS \<Longrightarrow>
   connect_ip_up e g obj ip_addr calls = None"
  by (simp add: connect_ip_up_def connect_dhcp_wait_no_address)

text \<open>
  C1. The manager is active, the object is initialized and not connected, the link is
  up, the interface is attached, \<^verbatim>\<open>cy_network_ip_up\<close> succeeds, and
  \<^verbatim>\<open>cy_network_get_ip_address\<close> fails at every poll. Then \<^verbatim>\<open>cy_ecm_connect\<close> does not
  return: the loop \<^verbatim>\<open>while ( true )\<close> has no exit but the \<^verbatim>\<open>break\<close> after a successful
  query, and the comparison with \<open>DHCP_TIMEOUT_COUNT\<close> stands after the loop.
\<close>

theorem connect_address_wait_unbounded:
  "cy_ecm_connect (env_all_ok\<lparr>cy_network_get_ip_address_r := nw_no_address\<rparr>)
     (state_initialized\<lparr>is_ethernet_initiated := [True, False],
                        is_ethernet_link_up := [True, False]\<rparr>)
     (Some object_eth0) None None = None"
proof -
  let ?e = "env_all_ok\<lparr>cy_network_get_ip_address_r := nw_no_address\<rparr>"
  have up: "cy_network_ip_up_r ?e = CY_RSLT_SUCCESS"
    by (simp add: env_all_ok_def)
  have no: "\<forall>k. fst (cy_network_get_ip_address_r ?e k) \<noteq> CY_RSLT_SUCCESS"
    by (simp add: nw_no_address_def)
  show ?thesis
    by (simp add: cy_ecm_connect_def connect_ip_up_no_address [OF up no] Let_def)
       (simp add: env_all_ok_def state_initialized_def state_at_start_def object_eth0_def)
qed

section \<open>Properties of the callback registry\<close>

lemma register_scan_full:
  "\<forall>m. i \<le> m \<and> m < CY_ECM_MAXIMUM_CALLBACKS_COUNT \<longrightarrow> handlers ! m \<noteq> None \<Longrightarrow>
   register_scan handlers cb i = handlers"
proof (induction handlers cb i rule: register_scan.induct)
  case (1 handlers cb i)
  show ?case
  proof (cases "i < CY_ECM_MAXIMUM_CALLBACKS_COUNT")
    case True
    with "1.prems" have occ: "handlers ! i \<noteq> None" by simp
    from "1.prems" have "\<forall>m. Suc i \<le> m \<and> m < CY_ECM_MAXIMUM_CALLBACKS_COUNT
                              \<longrightarrow> handlers ! m \<noteq> None"
      by simp
    with "1.IH" [OF True occ] have "register_scan handlers cb (Suc i) = handlers" .
    with True occ show ?thesis by (subst register_scan.simps) auto
  next
    case False
    then show ?thesis by (subst register_scan.simps) simp
  qed
qed

lemma register_scan_first_free:
  "i \<le> j \<Longrightarrow> j < CY_ECM_MAXIMUM_CALLBACKS_COUNT \<Longrightarrow> handlers ! j = None \<Longrightarrow>
   \<forall>m. i \<le> m \<and> m < j \<longrightarrow> handlers ! m \<noteq> None \<Longrightarrow>
   register_scan handlers cb i = handlers[j := Some cb]"
proof (induction handlers cb i rule: register_scan.induct)
  case (1 handlers cb i)
  from "1.prems" have lt: "i < CY_ECM_MAXIMUM_CALLBACKS_COUNT" by simp
  show ?case
  proof (cases "i = j")
    case True
    with lt "1.prems" show ?thesis by (subst register_scan.simps) simp
  next
    case False
    with "1.prems" have ij: "i < j" by simp
    with "1.prems" have occ: "handlers ! i \<noteq> None" by simp
    from ij "1.prems" have "register_scan handlers cb (Suc i) = handlers[j := Some cb]"
      by (intro "1.IH" [OF lt occ]) simp_all
    with lt occ show ?thesis by (subst register_scan.simps) auto
  qed
qed

lemma deregister_scan_absent:
  "\<forall>m. i \<le> m \<and> m < CY_ECM_MAXIMUM_CALLBACKS_COUNT \<longrightarrow> handlers ! m \<noteq> Some cb \<Longrightarrow>
   deregister_scan handlers cb i = handlers"
proof (induction handlers cb i rule: deregister_scan.induct)
  case (1 handlers cb i)
  show ?case
  proof (cases "i < CY_ECM_MAXIMUM_CALLBACKS_COUNT")
    case True
    with "1.prems" have occ: "handlers ! i \<noteq> Some cb" by simp
    from "1.prems" have "\<forall>m. Suc i \<le> m \<and> m < CY_ECM_MAXIMUM_CALLBACKS_COUNT
                              \<longrightarrow> handlers ! m \<noteq> Some cb"
      by simp
    with "1.IH" [OF True occ] have "deregister_scan handlers cb (Suc i) = handlers" .
    with True occ show ?thesis by (subst deregister_scan.simps) auto
  next
    case False
    then show ?thesis by (subst deregister_scan.simps) simp
  qed
qed

text \<open>
  C7. The manager is active, the object is initialized and the mutex works. If all
  three slots are occupied, registering a callback returns success and leaves the
  state, and so every slot, as it was. If slot \<open>j\<close> is the first free one, registering
  puts the callback there and changes nothing else. Deregistering a callback that is
  in no slot returns success and leaves the state as it was.
\<close>

theorem callback_registry_bounded:
  assumes wf: "state_wf g"
    and init: "is_ecm_initialized g" "isobjinitialized obj"
    and locks: "cy_rtos_get_mutex_r e = CY_RSLT_SUCCESS" "cy_rtos_set_mutex_r e = CY_RSLT_SUCCESS"
  shows "((\<forall>slot \<in> set (ecm_event_handler g). slot \<noteq> None) \<longrightarrow>
            cy_ecm_register_event_callback e g (Some obj) (Some cb) =
              (CY_RSLT_SUCCESS, g, [Cy_rtos_get_mutex, Cy_rtos_set_mutex])) \<and>
         (\<forall>j < CY_ECM_MAXIMUM_CALLBACKS_COUNT.
            ecm_event_handler g ! j = None \<and> (\<forall>m < j. ecm_event_handler g ! m \<noteq> None) \<longrightarrow>
            cy_ecm_register_event_callback e g (Some obj) (Some cb) =
              (CY_RSLT_SUCCESS, g\<lparr>ecm_event_handler := (ecm_event_handler g)[j := Some cb]\<rparr>,
               [Cy_rtos_get_mutex, Cy_rtos_set_mutex])) \<and>
         (Some cb \<notin> set (ecm_event_handler g) \<longrightarrow>
            cy_ecm_deregister_event_callback e g (Some obj) (Some cb) =
              (CY_RSLT_SUCCESS, g, [Cy_rtos_get_mutex, Cy_rtos_set_mutex]))"
proof -
  have len: "length (ecm_event_handler g) = CY_ECM_MAXIMUM_CALLBACKS_COUNT"
    using wf by (simp add: state_wf_def)
  have full: "register_scan (ecm_event_handler g) cb 0 = ecm_event_handler g"
    if "\<forall>slot \<in> set (ecm_event_handler g). slot \<noteq> None"
    using that len by (intro register_scan_full) (simp add: all_set_conv_all_nth)
  have free: "register_scan (ecm_event_handler g) cb 0 = (ecm_event_handler g)[j := Some cb]"
    if "j < CY_ECM_MAXIMUM_CALLBACKS_COUNT" "ecm_event_handler g ! j = None"
       "\<forall>m < j. ecm_event_handler g ! m \<noteq> None" for j
    using that by (intro register_scan_first_free) simp_all
  have absent: "deregister_scan (ecm_event_handler g) cb 0 = ecm_event_handler g"
    if "Some cb \<notin> set (ecm_event_handler g)"
    using that len by (intro deregister_scan_absent) (auto simp: in_set_conv_nth)
  show ?thesis
    using init locks full free absent
    by (simp add: cy_ecm_register_event_callback_def cy_ecm_deregister_event_callback_def)
qed

theorem callback_registry_bounded_witness:
  "cy_ecm_register_event_callback env_all_ok
     (state_initialized\<lparr>ecm_event_handler := [Some 1, Some 2, Some 3]\<rparr>)
     (Some object_eth0) (Some 4) =
     (CY_RSLT_SUCCESS, state_initialized\<lparr>ecm_event_handler := [Some 1, Some 2, Some 3]\<rparr>,
      [Cy_rtos_get_mutex, Cy_rtos_set_mutex]) \<and>
   cy_ecm_register_event_callback env_all_ok
     (state_initialized\<lparr>ecm_event_handler := [Some 1, None, None]\<rparr>)
     (Some object_eth0) (Some 4) =
     (CY_RSLT_SUCCESS, state_initialized\<lparr>ecm_event_handler := [Some 1, Some 4, None]\<rparr>,
      [Cy_rtos_get_mutex, Cy_rtos_set_mutex]) \<and>
   cy_ecm_deregister_event_callback env_all_ok
     (state_initialized\<lparr>ecm_event_handler := [Some 1, None, Some 3]\<rparr>)
     (Some object_eth0) (Some 4) =
     (CY_RSLT_SUCCESS, state_initialized\<lparr>ecm_event_handler := [Some 1, None, Some 3]\<rparr>,
      [Cy_rtos_get_mutex, Cy_rtos_set_mutex])"
proof -
  let ?full = "state_initialized\<lparr>ecm_event_handler := [Some 1, Some 2, Some 3]\<rparr>"
  let ?free = "state_initialized\<lparr>ecm_event_handler := [Some 1, None, None]\<rparr>"
  let ?gap = "state_initialized\<lparr>ecm_event_handler := [Some 1, None, Some 3]\<rparr>"
  have wf: "state_wf ?full" "state_wf ?free" "state_wf ?gap"
    by (simp_all add: state_wf_def state_initialized_def state_at_start_def
                      CY_ECM_MAXIMUM_CALLBACKS_COUNT_def CY_ECM_ETH_INTERFACE_MAX_def)
  have init: "is_ecm_initialized ?full" "is_ecm_initialized ?free" "is_ecm_initialized ?gap"
    "isobjinitialized object_eth0"
    by (simp_all add: state_initialized_def object_eth0_def)
  have locks: "cy_rtos_get_mutex_r env_all_ok = CY_RSLT_SUCCESS"
    "cy_rtos_set_mutex_r env_all_ok = CY_RSLT_SUCCESS"
    by (simp_all add: env_all_ok_def)
  have one: "(1::nat) < CY_ECM_MAXIMUM_CALLBACKS_COUNT"
    by (simp add: CY_ECM_MAXIMUM_CALLBACKS_COUNT_def)
  note full = callback_registry_bounded [OF wf(1) init(1) init(4) locks, of 4,
                THEN conjunct1]
  note free = callback_registry_bounded [OF wf(2) init(2) init(4) locks, of 4,
                THEN conjunct2, THEN conjunct1, rule_format, OF one]
  note gap = callback_registry_bounded [OF wf(3) init(3) init(4) locks, of 4,
                THEN conjunct2, THEN conjunct2]
  have "cy_ecm_register_event_callback env_all_ok ?full (Some object_eth0) (Some 4) =
          (CY_RSLT_SUCCESS, ?full, [Cy_rtos_get_mutex, Cy_rtos_set_mutex])"
    using full by simp
  moreover have "cy_ecm_register_event_callback env_all_ok ?free (Some object_eth0) (Some 4) =
          (CY_RSLT_SUCCESS, state_initialized\<lparr>ecm_event_handler := [Some 1, Some 4, None]\<rparr>,
           [Cy_rtos_get_mutex, Cy_rtos_set_mutex])"
    using free by (simp add: less_Suc_eq)
  moreover have "cy_ecm_deregister_event_callback env_all_ok ?gap (Some object_eth0) (Some 4) =
          (CY_RSLT_SUCCESS, ?gap, [Cy_rtos_get_mutex, Cy_rtos_set_mutex])"
    using gap by simp
  ultimately show ?thesis by simp
qed

section \<open>Properties of the getters\<close>

text \<open>
  C10. The manager is active, the mutex works and no poll of the PHY returns success
  with status 1. Then \<^verbatim>\<open>cy_ecm_get_link_status\<close> polls 100 times, 100 ms apart, and
  returns \<open>CY_RSLT_SUCCESS\<close> with \<^verbatim>\<open>*status\<close> false, while \<^verbatim>\<open>cy_ecm_get_link_speed\<close>
  after the same polls returns \<open>CY_RSLT_ECM_ERROR\<close> and leaves its output parameters as
  they were.
\<close>

theorem get_link_status_down_is_success:
  assumes init: "is_ecm_initialized g"
    and locks: "cy_rtos_get_mutex_r e = CY_RSLT_SUCCESS" "cy_rtos_set_mutex_r e = CY_RSLT_SUCCESS"
    and never: "\<forall>k ls. phy_get_linkstatus_r e k (eth_idx obj) ls \<noteq> (CY_RSLT_SUCCESS, 1)"
  shows "cy_ecm_get_link_status e g (Some obj) (Some st) =
           (CY_RSLT_SUCCESS, Some False,
            [Cy_rtos_get_mutex] @
            concat (replicate 100 [Phy_get_linkstatus (eth_idx obj),
                                   Cy_rtos_delay_milliseconds 100]) @
            [Cy_rtos_set_mutex]) \<and>
         cy_ecm_get_link_speed e g (Some obj) (Some d) (Some s) =
           (CY_RSLT_ECM_ERROR, Some d, Some s,
            [Cy_rtos_get_mutex] @
            concat (replicate 100 [Phy_get_linkstatus (eth_idx obj),
                                   Cy_rtos_delay_milliseconds 100]) @
            [Cy_rtos_set_mutex])"
proof -
  obtain r where w: "get_link_status_wait (phy_get_linkstatus_r e) (eth_idx obj) 0 0 0
                       CY_RSLT_SUCCESS st [Cy_rtos_get_mutex] =
                     (r, MAX_WAIT_ETHERNET_PHY_STATUS, st,
                      [Cy_rtos_get_mutex] @ concat (replicate (100 - 0)
                        [Phy_get_linkstatus (eth_idx obj), Cy_rtos_delay_milliseconds 100]))"
    using get_link_status_wait_timeout
            [where phy = "phy_get_linkstatus_r e" and idx = "eth_idx obj" and m = 0 and t = 0
               and k = 0 and ls = 0 and res = CY_RSLT_SUCCESS and st = st
               and calls = "[Cy_rtos_get_mutex]", OF never]
    by auto
  have v: "get_link_speed_wait (phy_get_linkstatus_r e) (phy_get_linkspeed_r e) (eth_idx obj)
             0 0 0 0 [Cy_rtos_get_mutex] =
           (CY_RSLT_ECM_ERROR, None,
            [Cy_rtos_get_mutex] @ concat (replicate (100 - 0)
              [Phy_get_linkstatus (eth_idx obj), Cy_rtos_delay_milliseconds 100]))"
    using get_link_speed_wait_timeout
            [where phy = "phy_get_linkstatus_r e" and idx = "eth_idx obj" and m = 0 and t = 0
               and k = 0 and ls = 0 and calls = "[Cy_rtos_get_mutex]", OF never]
    by simp
  show ?thesis
    using init locks
    by (simp add: cy_ecm_get_link_status_def cy_ecm_get_link_speed_def w v)
qed

theorem get_link_status_down_is_success_witness:
  "cy_ecm_get_link_status (env_all_ok\<lparr>phy_get_linkstatus_r := phy_link_down\<rparr>)
     state_initialized (Some object_eth0) (Some True) =
     (CY_RSLT_SUCCESS, Some False,
      [Cy_rtos_get_mutex] @
      concat (replicate 100 [Phy_get_linkstatus 0, Cy_rtos_delay_milliseconds 100]) @
      [Cy_rtos_set_mutex]) \<and>
   cy_ecm_get_link_speed (env_all_ok\<lparr>phy_get_linkstatus_r := phy_link_down\<rparr>)
     state_initialized (Some object_eth0) (Some 7) (Some 8) =
     (CY_RSLT_ECM_ERROR, Some 7, Some 8,
      [Cy_rtos_get_mutex] @
      concat (replicate 100 [Phy_get_linkstatus 0, Cy_rtos_delay_milliseconds 100]) @
      [Cy_rtos_set_mutex])"
  using get_link_status_down_is_success
          [of state_initialized "env_all_ok\<lparr>phy_get_linkstatus_r := phy_link_down\<rparr>"
              object_eth0 True 7 8]
  by (simp add: state_initialized_def object_eth0_def env_all_ok_def phy_link_down_def)

text \<open>
  C8. The manager is active, the mutex works and the object is not connected. Then
  \<^verbatim>\<open>cy_ecm_get_ip_address\<close> returns \<open>CY_RSLT_MODULE_ECM_NOT_CONNECTED\<close>, the caller's
  address structure is all zero afterwards, whatever it held, and the network stack is
  not asked.
\<close>

theorem get_ip_address_not_connected:
  assumes "is_ecm_initialized g"
    and "cy_rtos_get_mutex_r e = CY_RSLT_SUCCESS"
    and "cy_rtos_set_mutex_r e = CY_RSLT_SUCCESS"
    and "network_up obj = False"
  shows "cy_ecm_get_ip_address e g (Some obj) (Some a) =
           (CY_RSLT_MODULE_ECM_NOT_CONNECTED, Some \<lparr>version = 0, ip = [0, 0, 0, 0]\<rparr>,
            [Cy_rtos_get_mutex, Cy_rtos_set_mutex])"
  using assms
  by (simp add: cy_ecm_get_ip_address_def zeroed_ip_address_def numeral_eq_Suc)

theorem get_ip_address_not_connected_witness:
  "cy_ecm_get_ip_address env_all_ok state_initialized (Some object_eth0)
     (Some \<lparr>version = 4, ip = [0xC0A80102, 5, 6, 7]\<rparr>) =
     (CY_RSLT_MODULE_ECM_NOT_CONNECTED, Some \<lparr>version = 0, ip = [0, 0, 0, 0]\<rparr>,
      [Cy_rtos_get_mutex, Cy_rtos_set_mutex])"
  using get_ip_address_not_connected
          [of state_initialized env_all_ok object_eth0
              "\<lparr>version = 4, ip = [0xC0A80102, 5, 6, 7]\<rparr>"]
  by (simp add: state_initialized_def object_eth0_def env_all_ok_def)

end
